theory Spec2Isabelle
  imports
    Complex_Main
    "HOL-Library.Sublist"
    "HOL-Library.Multiset"
    "HOL-Library.Char_ord"
    "HOL-Library.List_Lexorder"
begin

section \<open>JavaScript values and the runtime the code calls into\<close>

text \<open>
  The TypeScript sources type every node description as \<open>any\<close>. The model gives the
  fields the types the code uses them at (strings, string arrays, numbers), with an
  \<open>option\<close> for a field that may be undefined, and keeps a shape variant wherever the
  source itself tests the shape (\<open>Array.isArray\<close>, \<open>typeof ... === 'function'\<close>).
  Payloads that the code only stringifies or parses are JSON values. Numbers are the exact
  rationals: the code sorts them, by the sign of a difference, and stores them; it does no
  other arithmetic on them.
\<close>

datatype jsval =
    JUndefined
  | JNull
  | JBool bool
  | JNum rat
  | JNaN
  | JStr string
  | JArr "jsval list"
  | JObj "(string \<times> jsval) list"

text \<open>JavaScript truthiness of a value.\<close>

fun js_truthy :: "jsval \<Rightarrow> bool" where
  "js_truthy JUndefined = False"
| "js_truthy JNull = False"
| "js_truthy (JBool b) = b"
| "js_truthy (JNum r) = (r \<noteq> 0)"
| "js_truthy JNaN = False"
| "js_truthy (JStr s) = (s \<noteq> [])"
| "js_truthy (JArr xs) = True"
| "js_truthy (JObj kvs) = True"

text \<open>\<open>Array.isArray(v)\<close> and \<open>v[0]\<close> on an array.\<close>

fun isArray :: "jsval \<Rightarrow> bool" where
  "isArray (JArr xs) = True"
| "isArray v = False"

fun index0 :: "jsval \<Rightarrow> jsval" where
  "index0 (JArr (x # xs)) = x"
| "index0 v = JUndefined"

text \<open>
  A string-valued field that may be undefined: \<open>None\<close> is undefined, \<open>Some s\<close> the
  string \<open>s\<close>. The empty string is falsy; a template literal renders undefined as the
  text \<open>undefined\<close>.
\<close>

definition truthy :: "string option \<Rightarrow> bool" where
  "truthy v = (case v of None \<Rightarrow> False | Some s \<Rightarrow> s \<noteq> [])"

definition js_or :: "string option \<Rightarrow> string option \<Rightarrow> string option" where
  "js_or a b = (if truthy a then a else b)"

definition or_else :: "string option \<Rightarrow> string \<Rightarrow> string" where
  "or_else a d = (case a of None \<Rightarrow> d | Some s \<Rightarrow> if s \<noteq> [] then s else d)"

definition tmpl :: "string option \<Rightarrow> string" where
  "tmpl v = (case v of None \<Rightarrow> ''undefined'' | Some s \<Rightarrow> s)"

abbreviation NL :: string where
  "NL \<equiv> [CHR 0x0A]"

text \<open>\<open>parts.join(sep)\<close> on an array of strings.\<close>

fun join :: "string \<Rightarrow> string list \<Rightarrow> string" where
  "join sep [] = []"
| "join sep [x] = x"
| "join sep (x # y # ys) = x @ sep @ join sep (y # ys)"

text \<open>
  \<open>s.replace(pat, rep)\<close> with a string pattern: the first occurrence only. The code calls
  it with the constant arguments \<open>'@n8n/'\<close>, \<open>'n8n-'\<close>, \<open>'n8n-nodes-base.'\<close> and
  replacements without \<open>$\<close>.
\<close>

fun replace_first :: "string \<Rightarrow> string \<Rightarrow> string \<Rightarrow> string" where
  "replace_first pat rep [] = (if pat = [] then rep else [])"
| "replace_first pat rep (c # cs) =
     (if prefix pat (c # cs) then rep @ drop (length pat) (c # cs)
      else c # replace_first pat rep cs)"

text \<open>
  The functions of the JavaScript runtime that the code calls and that are not part of
  the repository. \<open>JSON_parse\<close> returns \<open>None\<close> where \<open>JSON.parse\<close> throws a
  SyntaxError.
\<close>

record js_runtime =
  JSON_stringify :: "jsval \<Rightarrow> string"
  JSON_parse :: "string \<Rightarrow> jsval option"
  parseFloat :: "string \<Rightarrow> jsval"
  Number_toString :: "rat \<Rightarrow> string"

section \<open>Node descriptions and loaded node classes\<close>

record property =
  p_name :: "string option"
  p_displayName :: "string option"
  p_description :: "string option"
  p_options :: jsval
  p_json :: jsval

text \<open>
  \<open>description.properties\<close>: undefined (or falsy), an array of parameter descriptors, or
  some other truthy value that is not an array. \<open>p_json\<close> is the descriptor as the JSON
  value that \<open>JSON.stringify\<close> sees; the other fields are the ones the code reads.
\<close>

datatype properties_decl = PAbsent | PArray "property list" | PNonArray jsval

text \<open>\<open>description.version\<close>: undefined, one number, or an array of numbers.\<close>

datatype version_decl = VAbsent | VNumber rat | VArray "rat list"

record resource =
  r_label :: "string option"
  r_url :: "string option"

record codex =
  c_categories :: "string list option"
  c_subcategories :: "(string \<times> string list) list option"
  c_resources :: "resource list option"
  c_alias :: "string list option"

record node_description =
  d_name :: "string option"
  d_displayName :: "string option"
  d_description :: "string option"
  d_group :: "string list option"
  d_version :: version_decl
  d_subtitle :: "string option"
  d_properties :: properties_decl
  d_credentials :: jsval
  d_routing :: bool
  d_polling :: bool
  d_trigger :: bool
  d_webhook :: bool
  d_codex :: "codex option"
  d_hints :: "string option"

text \<open>The empty object \<open>{}\<close> read as a description.\<close>

definition empty_description :: node_description where
  "empty_description =
     \<lparr> d_name = None, d_displayName = None, d_description = None, d_group = None,
       d_version = VAbsent, d_subtitle = None, d_properties = PAbsent,
       d_credentials = JUndefined, d_routing = False, d_polling = False,
       d_trigger = False, d_webhook = False, d_codex = None, d_hints = None \<rparr>"

text \<open>
  What \<open>new nodeClass()\<close> returns: the instance's \<open>description\<close> and
  \<open>baseDescription\<close> (\<open>None\<close> when falsy), the numeric keys of its \<open>nodeVersions\<close>
  object in \<open>Object.keys\<close> order (\<open>None\<close> when the field is falsy), and whether
  \<open>getNodeType\<close> is truthy.
\<close>

record node_instance =
  i_description :: "node_description option"
  i_baseDescription :: "node_description option"
  i_nodeVersions :: "rat list option"
  i_getNodeType :: bool

text \<open>
  The static side of an exported value: whether \<open>nodeClass.nodeVersions\<close> is truthy,
  whether \<open>typeof nodeClass.getNodeType === 'function'\<close>, and \<open>nodeClass.description\<close>.
\<close>

record node_static =
  s_nodeVersions :: bool
  s_getNodeType :: bool
  s_description :: "node_description option"

text \<open>
  An exported value: falsy; a truthy value that is not a function (\<open>new\<close> throws a
  TypeError); or a function, whose construction returns an instance or throws.
\<close>

datatype node_class =
    NFalsy
  | NObject node_static
  | NFunction node_static "node_instance option"

fun class_truthy :: "node_class \<Rightarrow> bool" where
  "class_truthy NFalsy = False"
| "class_truthy (NObject s) = True"
| "class_truthy (NFunction s i) = True"

fun is_function :: "node_class \<Rightarrow> bool" where
  "is_function (NFunction s i) = True"
| "is_function c = False"

fun static_of :: "node_class \<Rightarrow> node_static" where
  "static_of NFalsy = \<lparr> s_nodeVersions = False, s_getNodeType = False, s_description = None \<rparr>"
| "static_of (NObject s) = s"
| "static_of (NFunction s i) = s"

text \<open>\<open>new nodeClass()\<close>: \<open>None\<close> when it throws.\<close>

fun construct :: "node_class \<Rightarrow> node_instance option" where
  "construct (NFunction s i) = i"
| "construct c = None"

record loaded_node =
  packageName :: string
  nodeName :: string
  NodeClass :: node_class

section \<open>The rebuild script: descriptor extraction\<close>

text \<open>\<open>getNodeDescription\<close>: every throw is caught and gives \<open>{}\<close>.\<close>

definition getNodeDescription :: "node_class \<Rightarrow> node_description" where
  "getNodeDescription nodeClass =
     (if s_nodeVersions (static_of nodeClass) \<or> s_getNodeType (static_of nodeClass) then
        (case construct nodeClass of
           None \<Rightarrow> empty_description
         | Some inst \<Rightarrow>
             (case i_description inst of
                Some d \<Rightarrow> d
              | None \<Rightarrow> (case i_baseDescription inst of Some b \<Rightarrow> b | None \<Rightarrow> empty_description)))
      else if is_function nodeClass then
        (case construct nodeClass of
           None \<Rightarrow> empty_description
         | Some inst \<Rightarrow> (case i_description inst of Some d \<Rightarrow> d | None \<Rightarrow> empty_description))
      else (case s_description (static_of nodeClass) of Some d \<Rightarrow> d | None \<Rightarrow> empty_description))"

definition extractNodeType :: "node_description \<Rightarrow> string \<Rightarrow> string" where
  "extractNodeType description pkgName =
     (case d_name description of
        None \<Rightarrow> ''unknown''
      | Some name \<Rightarrow>
          if name = [] then ''unknown''
          else if CHR ''.'' \<in> set name then name
          else replace_first ''n8n-'' [] (replace_first ''@n8n/'' [] pkgName) @ ''.'' @ name)"

definition isVersionedNode :: "node_class \<Rightarrow> bool" where
  "isVersionedNode nodeClass =
     (if s_nodeVersions (static_of nodeClass) \<or> s_getNodeType (static_of nodeClass) then True
      else (case construct nodeClass of
              None \<Rightarrow> False
            | Some inst \<Rightarrow> i_nodeVersions inst \<noteq> None \<or> i_getNodeType inst))"

text \<open>
  \<open>xs.sort((a, b) => b - a)\<close> on numbers. The comparator asks for \<open>y\<close> before \<open>x\<close>
  when \<open>y - x\<close> is positive. The sort of the language is stable: an element is inserted,
  from the right, before the first element that need not precede it.
\<close>

fun insert_desc :: "rat \<Rightarrow> rat list \<Rightarrow> rat list" where
  "insert_desc x [] = [x]"
| "insert_desc x (y # ys) = (if 0 < y - x then y # insert_desc x ys else x # y # ys)"

fun sort_desc :: "rat list \<Rightarrow> rat list" where
  "sort_desc [] = []"
| "sort_desc (x # xs) = insert_desc x (sort_desc xs)"

definition extractVersion :: "js_runtime \<Rightarrow> node_class \<Rightarrow> string" where
  "extractVersion rt nodeClass =
     (case construct nodeClass of
        None \<Rightarrow> ''1''
      | Some inst \<Rightarrow>
          (case i_nodeVersions inst of
             Some keys \<Rightarrow> JSON_stringify rt (JArr (map JNum (sort_desc keys)))
           | None \<Rightarrow>
               (case (case i_description inst of Some d \<Rightarrow> Some d | None \<Rightarrow> i_baseDescription inst) of
                  None \<Rightarrow> ''1''
                | Some desc \<Rightarrow>
                    (case d_version desc of
                       VArray vs \<Rightarrow> JSON_stringify rt (JArr (map JNum (sort_desc vs)))
                     | VNumber v \<Rightarrow> or_else (Some (Number_toString rt v)) ''1''
                     | VAbsent \<Rightarrow> ''1''))))"

text \<open>
  \<open>extractOperations\<close>: \<open>description.properties.find\<close> throws a TypeError when the
  field is truthy and not an array; the throw reaches the \<open>catch\<close> of the rebuild loop.
\<close>

datatype extraction_error = TypeError

definition extractOperations :: "js_runtime \<Rightarrow> node_description \<Rightarrow> extraction_error + string option" where
  "extractOperations rt description =
     (case d_properties description of
        PAbsent \<Rightarrow> Inr None
      | PNonArray v \<Rightarrow> Inl TypeError
      | PArray ps \<Rightarrow>
          (case find (\<lambda>p. p_name p = Some ''operation'' \<or> p_name p = Some ''resource'') ps of
             None \<Rightarrow> Inr None
           | Some operationField \<Rightarrow>
               if js_truthy (p_options operationField)
               then Inr (Some (JSON_stringify rt (p_options operationField)))
               else Inr None))"

text \<open>\<open>buildCodexDocumentation\<close>, for a truthy codex.\<close>

definition buildCodexDocumentation :: "codex \<Rightarrow> string option" where
  "buildCodexDocumentation cx =
     (let parts =
        (case c_categories cx of
           None \<Rightarrow> []
         | Some cs \<Rightarrow> [NL @ ''## Categories'' @ NL @ NL @ join '', '' cs]) @
        (case c_subcategories cx of
           None \<Rightarrow> []
         | Some es \<Rightarrow>
             [NL @ ''## Use Cases'' @ NL @ NL @
              join NL (map (\<lambda>(k, v). ''- '' @ k @ '': '' @ join '','' v) es)]) @
        (case c_resources cx of
           None \<Rightarrow> []
         | Some rs \<Rightarrow>
             [NL @ ''## Resources'' @ NL @ NL @
              join NL (map (\<lambda>r. ''- ['' @ tmpl (r_label r) @ '']('' @ tmpl (r_url r) @ '')'') rs)]) @
        (case c_alias cx of
           None \<Rightarrow> []
         | Some as \<Rightarrow> if as \<noteq> [] then [NL @ ''## Also known as'' @ NL @ NL @ join '', '' as] else [])
      in if parts \<noteq> [] then Some (join NL parts) else None)"

text \<open>
  \<open>extractDocumentation\<close>. \<open>githubDocs\<close> is the documentation map fetched for the
  release; \<open>githubDocs[nodeType]\<close> is tested for truthiness.
\<close>

definition property_docs :: "properties_decl \<Rightarrow> string" where
  "property_docs props =
     (case props of
        PArray ps \<Rightarrow>
          join NL (map (\<lambda>p. ''**'' @ tmpl (js_or (p_displayName p) (p_name p)) @ ''**: '' @ tmpl (p_description p))
                       (filter (\<lambda>p. truthy (p_description p)) ps))
      | PAbsent \<Rightarrow> []
      | PNonArray v \<Rightarrow> [])"

definition doc_parts :: "node_description \<Rightarrow> string list" where
  "doc_parts description =
     (if truthy (d_description description)
      then [''# '' @ tmpl (js_or (d_displayName description) (d_name description)) @ NL @ NL @
            tmpl (d_description description) @ NL]
      else []) @
     (if truthy (d_subtitle description)
      then [''## '' @ tmpl (d_subtitle description) @ NL]
      else []) @
     (if property_docs (d_properties description) \<noteq> []
      then [NL @ ''## Parameters'' @ NL @ NL @ property_docs (d_properties description) @ NL]
      else []) @
     (case d_codex description of
        None \<Rightarrow> []
      | Some cx \<Rightarrow> (case buildCodexDocumentation cx of None \<Rightarrow> [] | Some codexDoc \<Rightarrow>
                     if codexDoc \<noteq> [] then [codexDoc] else [])) @
     (if truthy (d_hints description)
      then [NL @ ''## Hints'' @ NL @ NL @ tmpl (d_hints description) @ NL]
      else [])"

definition extractDocumentation ::
    "node_description \<Rightarrow> string \<Rightarrow> (string \<rightharpoonup> string) \<Rightarrow> string option" where
  "extractDocumentation description nodeType githubDocs =
     (if truthy (githubDocs nodeType) then githubDocs nodeType
      else if doc_parts description \<noteq> [] then Some (join NL (doc_parts description))
      else None)"

section \<open>The catalog store\<close>

text \<open>
  One row of the table \<open>nodes\<close>, with the columns of the \<open>CREATE TABLE\<close> statement in
  their order. The columns that the interface \<open>NodeInfo\<close> declares as required strings
  and numbers are strings and integers; every other column may be NULL (\<open>None\<close>).
\<close>

record node_row =
  node_type :: string
  package_name :: string
  display_name :: string
  description :: string
  category :: string
  documentation :: "string option"
  properties_schema :: "string option"
  operations :: "string option"
  credentials_required :: "string option"
  outputs :: "string option"
  output_names :: "string option"
  development_style :: "string option"
  is_ai_tool :: int
  is_trigger :: int
  is_webhook :: int
  is_versioned :: int
  version :: "string option"
  updated_at :: "string option"
  is_tool_variant :: int
  has_tool_variant :: int
  base_node_type :: "string option"
  tool_variant_of :: "string option"

text \<open>
  The table is the list of its rows in rowid order. \<open>INSERT OR REPLACE\<close> on the primary
  key \<open>node_type\<close> deletes the row that holds the key, if any, and appends the new row.
\<close>

definition insert_or_replace :: "node_row \<Rightarrow> node_row list \<Rightarrow> node_row list" where
  "insert_or_replace row tbl = filter (\<lambda>r. node_type r \<noteq> node_type row) tbl @ [row]"

text \<open>
  The values that one pass of the loop body binds for \<open>insert.run\<close>, as the row they
  make: the fourteen listed columns hold the bound values, the others their DEFAULT
  (\<open>updated_at\<close> is filled at insertion). \<open>Inl\<close> is a throw inside the \<open>try\<close> block.
\<close>

definition node_values ::
    "js_runtime \<Rightarrow> (string \<rightharpoonup> string) \<Rightarrow> loaded_node \<Rightarrow> extraction_error + node_row" where
  "node_values rt docsMap node =
     (let nodeClass = NodeClass node;
          description = getNodeDescription nodeClass;
          nodeType = extractNodeType description (packageName node);
          displayName = or_else (js_or (d_displayName description) (d_name description)) (nodeName node);
          desc = or_else (d_description description) [];
          category = or_else (case d_group description of Some (g # gs) \<Rightarrow> Some g | _ \<Rightarrow> None) ''misc'';
          isVersioned = isVersionedNode nodeClass;
          version = extractVersion rt nodeClass;
          style = (if d_routing description then ''declarative'' else ''programmatic'');
          documentation = extractDocumentation description nodeType docsMap;
          properties =
            (case d_properties description of
               PAbsent \<Rightarrow> None
             | PArray ps \<Rightarrow> Some (JSON_stringify rt (JArr (map p_json ps)))
             | PNonArray v \<Rightarrow> Some (JSON_stringify rt v))
      in case extractOperations rt description of
           Inl e \<Rightarrow> Inl e
         | Inr ops \<Rightarrow>
             Inr \<lparr> node_type = nodeType,
                   package_name = packageName node,
                   display_name = displayName,
                   description = desc,
                   category = category,
                   documentation = documentation,
                   properties_schema = properties,
                   operations = ops,
                   credentials_required =
                     (if js_truthy (d_credentials description)
                      then Some (JSON_stringify rt (d_credentials description)) else None),
                   outputs = None,
                   output_names = None,
                   development_style = Some style,
                   is_ai_tool = 0,
                   is_trigger =
                     (if d_polling description \<or> d_trigger description \<or> category = ''trigger''
                      then 1 else 0),
                   is_webhook =
                     (if d_webhook description \<or> sublist ''webhook'' nodeType then 1 else 0),
                   is_versioned = (if isVersioned then 1 else 0),
                   version = Some version,
                   updated_at = None,
                   is_tool_variant = 0,
                   has_tool_variant = 0,
                   base_node_type = None,
                   tool_variant_of = None \<rparr>)"

text \<open>
  The state of the loop of \<open>rebuild\<close>: the table, the two counters and the names of the
  nodes whose processing threw. \<open>clock k\<close> is CURRENT_TIMESTAMP at the insertion that
  follows \<open>k\<close> successful ones.
\<close>

record rebuild_state =
  nodes_table :: "node_row list"
  successful :: nat
  docsExtracted :: nat
  failed :: "string list"

definition rebuild_step ::
    "js_runtime \<Rightarrow> (string \<rightharpoonup> string) \<Rightarrow> (nat \<Rightarrow> string) \<Rightarrow> loaded_node \<Rightarrow> rebuild_state \<Rightarrow> rebuild_state" where
  "rebuild_step rt docsMap clock node st =
     (let description = getNodeDescription (NodeClass node);
          documented = truthy (extractDocumentation description
                                 (extractNodeType description (packageName node)) docsMap);
          st1 = (if documented then st\<lparr> docsExtracted := docsExtracted st + 1 \<rparr> else st)
      in case node_values rt docsMap node of
           Inl e \<Rightarrow> st1\<lparr> failed := failed st1 @ [nodeName node] \<rparr>
         | Inr row \<Rightarrow>
             st1\<lparr> nodes_table :=
                    insert_or_replace (row\<lparr> updated_at := Some (clock (successful st1)) \<rparr>)
                      (nodes_table st1),
                  successful := successful st1 + 1 \<rparr>)"

fun rebuild_loop ::
    "js_runtime \<Rightarrow> (string \<rightharpoonup> string) \<Rightarrow> (nat \<Rightarrow> string) \<Rightarrow> loaded_node list \<Rightarrow> rebuild_state \<Rightarrow> rebuild_state" where
  "rebuild_loop rt docsMap clock [] st = st"
| "rebuild_loop rt docsMap clock (node # nodes) st =
     rebuild_loop rt docsMap clock nodes (rebuild_step rt docsMap clock node st)"

text \<open>
  \<open>rebuild\<close>: both tables are cleared (\<open>DELETE FROM\<close>), whatever they held, the loaded
  nodes are inserted, and the four metadata rows are written. \<open>now\<close> is the text of
  \<open>new Date().toISOString()\<close>.
\<close>

record catalog_db =
  db_nodes :: "node_row list"
  db_metadata :: "(string \<times> string) list"

definition version_number :: "string \<Rightarrow> string" where
  "version_number tag = (if prefix ''n8n@'' tag then drop 4 tag else tag)"

definition rebuild ::
    "js_runtime \<Rightarrow> (string \<rightharpoonup> string) \<Rightarrow> (nat \<Rightarrow> string) \<Rightarrow> string \<Rightarrow> string \<Rightarrow>
     catalog_db \<Rightarrow> loaded_node list \<Rightarrow> catalog_db \<times> rebuild_state" where
  "rebuild rt docsMap clock N8N_VERSION now old nodes =
     (let st = rebuild_loop rt docsMap clock nodes
                 \<lparr> nodes_table = [], successful = 0, docsExtracted = 0, failed = [] \<rparr>
      in (\<lparr> db_nodes = nodes_table st,
            db_metadata =
              [(''n8n_version'', version_number N8N_VERSION),
               (''rebuilt_at'', now),
               (''source'', ''local+github''),
               (''docs_extracted'', Number_toString rt (of_nat (docsExtracted st)))] \<rparr>,
          st))"

section \<open>The query service\<close>

text \<open>
  In the queries a text is a list of characters of the range U+0000 to U+00FF; a text with
  a character beyond that range is outside the model. SQLite holds a text in UTF-8, one
  byte for a character below U+0080 and two bytes for the others, and its limits count
  bytes.
\<close>

definition utf8_length :: "string \<Rightarrow> nat" where
  "utf8_length s = length s + length (filter (\<lambda>c. 128 \<le> (of_char c :: nat)) s)"

text \<open>
  SQLite's \<open>LIKE\<close> compares character by character: \<open>%\<close> in the pattern matches any
  run of characters, \<open>_\<close> any one character, and every other character matches itself,
  upper and lower case ASCII letters being equal.
\<close>

definition lower :: "char \<Rightarrow> char" where
  "lower c =
     (case map_of (zip ''ABCDEFGHIJKLMNOPQRSTUVWXYZ'' ''abcdefghijklmnopqrstuvwxyz'') c of
        Some l \<Rightarrow> l
      | None \<Rightarrow> c)"

fun like_match :: "string \<Rightarrow> string \<Rightarrow> bool" where
  "like_match [] [] = True"
| "like_match [] (c # cs) = False"
| "like_match (p # ps) [] = (p = CHR ''%'' \<and> like_match ps [])"
| "like_match (p # ps) (c # cs) =
     (if p = CHR ''%'' then like_match ps (c # cs) \<or> like_match (p # ps) cs
      else (p = CHR ''_'' \<or> lower p = lower c) \<and> like_match ps cs)"

text \<open>
  \<open>LIKE\<close> reads the pattern and the text as C strings: each ends before its first NUL
  character.
\<close>

definition c_string :: "string \<Rightarrow> string" where
  "c_string s = takeWhile (\<lambda>c. c \<noteq> CHR 0x00) s"

definition sql_like :: "string \<Rightarrow> string \<Rightarrow> bool" where
  "sql_like pat s = like_match (c_string pat) (c_string s)"

text \<open>\<open>x LIKE ?\<close> on a nullable column: NULL is not a match.\<close>

definition like_null :: "string \<Rightarrow> string option \<Rightarrow> bool" where
  "like_null pat v = (case v of None \<Rightarrow> False | Some s \<Rightarrow> sql_like pat s)"

text \<open>
  A value of the JavaScript type \<open>number\<close>. The driver binds it as a numeric value
  (NaN as NULL), and \<open>LIMIT ?\<close> takes it only when it is a whole number \<open>n\<close> with
  \<open>-2^63 < n < 2^63 - 1\<close>; for every other value the statement fails with a datatype
  mismatch (\<open>None\<close>).
\<close>

datatype js_number = Number rat | NaN | PlusInfinity | MinusInfinity

fun limit_value :: "js_number \<Rightarrow> int option" where
  "limit_value (Number r) =
     (if of_int \<lfloor>r\<rfloor> = r \<and> - (2 ^ 63) < \<lfloor>r\<rfloor> \<and> \<lfloor>r\<rfloor> < 2 ^ 63 - 1 then Some \<lfloor>r\<rfloor> else None)"
| "limit_value NaN = None"
| "limit_value PlusInfinity = None"
| "limit_value MinusInfinity = None"

text \<open>\<open>LIMIT n\<close> for an integer \<open>n\<close>: a negative \<open>n\<close> is no bound.\<close>

definition sql_limit :: "int \<Rightarrow> 'a list \<Rightarrow> 'a list" where
  "sql_limit n xs = (if n < 0 then xs else take (nat n) xs)"

text \<open>
  The limits that the query of \<open>searchNodes\<close> can meet: the longest string of the
  JavaScript engine, in characters, the longest text that SQLite binds
  (SQLITE_LIMIT_LENGTH) and the longest pattern that \<open>LIKE\<close> takes
  (SQLITE_LIMIT_LIKE_PATTERN_LENGTH), both in bytes.
\<close>

record engine_limits =
  max_string_length :: nat
  sqlite_max_length :: nat
  like_pattern_length :: nat

datatype search_error = RangeError | SqliteTooBig | SqliteMismatch | SqliteLikeTooComplex

text \<open>A result object of a query: column names with their values, in column order.\<close>

type_synonym jsobj = "(string \<times> jsval) list"

definition text_value :: "string option \<Rightarrow> jsval" where
  "text_value v = (case v of None \<Rightarrow> JNull | Some s \<Rightarrow> JStr s)"

definition int_value :: "int \<Rightarrow> jsval" where
  "int_value i = JNum (of_int i)"

text \<open>The eight columns that \<open>searchNodes\<close> selects.\<close>

definition select_minimal :: "node_row \<Rightarrow> jsobj" where
  "select_minimal r =
     [(''node_type'', JStr (node_type r)),
      (''package_name'', JStr (package_name r)),
      (''display_name'', JStr (display_name r)),
      (''description'', JStr (description r)),
      (''category'', JStr (category r)),
      (''is_ai_tool'', int_value (is_ai_tool r)),
      (''is_trigger'', int_value (is_trigger r)),
      (''is_webhook'', int_value (is_webhook r))]"

text \<open>\<open>SELECT *\<close>.\<close>

definition select_all :: "node_row \<Rightarrow> jsobj" where
  "select_all r =
     [(''node_type'', JStr (node_type r)),
      (''package_name'', JStr (package_name r)),
      (''display_name'', JStr (display_name r)),
      (''description'', JStr (description r)),
      (''category'', JStr (category r)),
      (''documentation'', text_value (documentation r)),
      (''properties_schema'', text_value (properties_schema r)),
      (''operations'', text_value (operations r)),
      (''credentials_required'', text_value (credentials_required r)),
      (''outputs'', text_value (outputs r)),
      (''output_names'', text_value (output_names r)),
      (''development_style'', text_value (development_style r)),
      (''is_ai_tool'', int_value (is_ai_tool r)),
      (''is_trigger'', int_value (is_trigger r)),
      (''is_webhook'', int_value (is_webhook r)),
      (''is_versioned'', int_value (is_versioned r)),
      (''version'', text_value (version r)),
      (''updated_at'', text_value (updated_at r)),
      (''is_tool_variant'', int_value (is_tool_variant r)),
      (''has_tool_variant'', int_value (has_tool_variant r)),
      (''base_node_type'', text_value (base_node_type r)),
      (''tool_variant_of'', text_value (tool_variant_of r))]"

text \<open>The \<open>WHERE\<close> clause of the query of \<open>searchNodes\<close>.\<close>

definition search_where :: "string \<Rightarrow> node_row \<Rightarrow> bool" where
  "search_where searchPattern r =
     (sql_like searchPattern (node_type r) \<or>
      sql_like searchPattern (display_name r) \<or>
      sql_like searchPattern (description r) \<or>
      like_null searchPattern (documentation r))"

text \<open>
  \<open>db.prepare(query).all(...)\<close> for the query of \<open>searchNodes\<close>. Binding the pattern
  fails when it is longer than SQLite binds. The limit is checked before any row is read,
  and \<open>LIMIT 0\<close> reads no row. \<open>LIKE\<close> refuses too long a pattern when it is called,
  which is at the first row.
\<close>

definition run_search_query ::
    "engine_limits \<Rightarrow> node_row list \<Rightarrow> string \<Rightarrow> js_number \<Rightarrow> search_error + jsobj list" where
  "run_search_query limits db searchPattern limit =
     (if sqlite_max_length limits < utf8_length searchPattern then Inl SqliteTooBig
      else (case limit_value limit of
              None \<Rightarrow> Inl SqliteMismatch
            | Some n \<Rightarrow>
                if n \<noteq> 0 \<and> db \<noteq> [] \<and> like_pattern_length limits < utf8_length searchPattern
                then Inl SqliteLikeTooComplex
                else Inr (map select_minimal (sql_limit n (filter (search_where searchPattern) db)))))"

datatype log_entry = LogInfo string | LogWarn string | LogError string

text \<open>The text of the \<open>logger.info\<close> line of \<open>searchNodes\<close>.\<close>

definition found_message :: "js_runtime \<Rightarrow> nat \<Rightarrow> string \<Rightarrow> string" where
  "found_message rt n keyword =
     ''Found '' @ Number_toString rt (of_nat n) @ '' nodes matching '' @ [CHR 0x22] @ keyword @
     [CHR 0x22] @ '' (minimal info, use get_node_info for full details)''"

text \<open>
  \<open>searchNodes\<close>. A template literal whose text would be longer than the longest
  string of the engine throws a RangeError; every error leaves the function as a throw.
\<close>

definition searchNodes ::
    "js_runtime \<Rightarrow> engine_limits \<Rightarrow> node_row list \<Rightarrow> string \<Rightarrow> js_number \<Rightarrow>
     (search_error + jsobj list) \<times> log_entry list" where
  "searchNodes rt limits db keyword limit =
     (let searchPattern = ''%'' @ keyword @ ''%''
      in if max_string_length limits < length searchPattern then (Inl RangeError, [])
         else (case run_search_query limits db searchPattern limit of
                 Inl e \<Rightarrow> (Inl e, [])
               | Inr results \<Rightarrow>
                   (let message = found_message rt (length results) keyword
                    in if max_string_length limits < length message then (Inl RangeError, [])
                       else (Inr results, [LogInfo message]))))"

text \<open>\<open>obj.key = v\<close> on a result object.\<close>

fun set_prop :: "string \<Rightarrow> jsval \<Rightarrow> jsobj \<Rightarrow> jsobj" where
  "set_prop k v [] = [(k, v)]"
| "set_prop k v ((k', v') # kvs) = (if k' = k then (k, v) # kvs else (k', v') # set_prop k v kvs)"

text \<open>
  One of the three blocks of \<open>getNodeInfo\<close> that parse a stored payload into a derived
  field: skipped when the column is NULL or empty, the derived field set when the parse
  succeeds, an error logged when it throws.
\<close>

definition parse_field ::
    "js_runtime \<Rightarrow> string option \<Rightarrow> string \<Rightarrow> string \<Rightarrow> jsobj \<times> log_entry list \<Rightarrow> jsobj \<times> log_entry list" where
  "parse_field rt payload target msg st =
     (case payload of
        None \<Rightarrow> st
      | Some s \<Rightarrow>
          if s = [] then st
          else (case JSON_parse rt s of
                  Some parsed \<Rightarrow> (set_prop target parsed (fst st), snd st)
                | None \<Rightarrow> (fst st, snd st @ [LogError msg])))"

text \<open>The block that parses the \<open>version\<close> column.\<close>

definition parse_version :: "js_runtime \<Rightarrow> string option \<Rightarrow> jsobj \<Rightarrow> jsobj" where
  "parse_version rt payload obj =
     (case payload of
        None \<Rightarrow> obj
      | Some s \<Rightarrow>
          if s = [] then obj
          else (case JSON_parse rt s of
                  Some parsed \<Rightarrow>
                    (let versions = (if isArray parsed then parsed else JArr [parseFloat rt s])
                     in set_prop ''latest_version'' (index0 versions) (set_prop ''versions'' versions obj))
                | None \<Rightarrow>
                    set_prop ''latest_version'' (parseFloat rt s)
                      (set_prop ''versions'' (JArr [parseFloat rt s]) obj)))"

definition getNodeInfo ::
    "js_runtime \<Rightarrow> node_row list \<Rightarrow> string \<Rightarrow> jsobj option \<times> log_entry list" where
  "getNodeInfo rt db nodeType =
     (let normalizedType = replace_first ''n8n-nodes-base.'' ''nodes-base.'' nodeType
      in case find (\<lambda>r. node_type r = normalizedType) db of
           None \<Rightarrow> (None, [LogWarn (''Node not found: '' @ nodeType)])
         | Some row \<Rightarrow>
             (let st1 = parse_field rt (properties_schema row) ''properties''
                          (''Failed to parse properties_schema for '' @ nodeType) (select_all row, []);
                  st2 = parse_field rt (operations row) ''operations_list''
                          (''Failed to parse operations for '' @ nodeType) st1;
                  st3 = parse_field rt (credentials_required row) ''credentials''
                          (''Failed to parse credentials for '' @ nodeType) st2
              in (Some (parse_version rt (version row) (fst st3)), snd st3)))"

text \<open>
  \<open>getAINodes\<close>: \<open>ORDER BY display_name\<close> compares the texts byte by byte in UTF-8,
  which is the order of their characters.
\<close>

definition getAINodes :: "node_row list \<Rightarrow> node_row list" where
  "getAINodes db =
     sort_key display_name (filter (\<lambda>r. is_ai_tool r = 1 \<or> category r = ''AI'') db)"

section \<open>The release reconciler\<close>

text \<open>
  What the code reads of a fetched \<open>package.json\<close>: \<open>version\<close>, and \<open>n8n?.nodes\<close>
  (\<open>None\<close> when falsy). A response carries \<open>ok\<close>, \<open>statusText\<close> and the result of
  \<open>json()\<close> (\<open>None\<close> when it rejects); \<open>fetch\<close> itself returns \<open>None\<close> when it
  rejects. The log lines are written without the symbol that opens the first one.
\<close>

record remote_manifest =
  pm_version :: "string option"
  pm_nodes :: "string list option"

record http_response =
  ok :: bool
  statusText :: string
  json :: "remote_manifest option"

datatype fetch_error = FetchFailed string | NetworkError | JsonError

record node_catalog =
  cat_version :: "string option"
  fetchedFrom :: string
  nodesBase :: "string list"
  langchain :: "string list"
  timestamp :: string

definition fetch_catalog_body ::
    "js_runtime \<Rightarrow> (string \<Rightarrow> http_response option) \<Rightarrow> string \<Rightarrow> string \<Rightarrow>
     (fetch_error + node_catalog) \<times> log_entry list" where
  "fetch_catalog_body rt fetch now versionOrBranch =
     (let GITHUB_RAW_URL = ''https://raw.githubusercontent.com/n8n-io/n8n/'' @ versionOrBranch;
          log0 = [LogInfo (''Fetching node catalog from n8n GitHub ('' @ versionOrBranch @ '')...'')]
      in case fetch (GITHUB_RAW_URL @ ''/packages/cli/package.json'') of
           None \<Rightarrow> (Inl NetworkError, log0)
         | Some versionResponse \<Rightarrow>
             if \<not> ok versionResponse then
               (Inl (FetchFailed (''Failed to fetch n8n version from '' @ versionOrBranch @ '': '' @
                                  statusText versionResponse)), log0)
             else
               (case json versionResponse of
                  None \<Rightarrow> (Inl JsonError, log0)
                | Some versionData \<Rightarrow>
                    (let n8nVersion = pm_version versionData;
                         log1 = log0 @ [LogInfo (''n8n version: '' @ tmpl n8nVersion)]
                     in case fetch (GITHUB_RAW_URL @ ''/packages/nodes-base/package.json'') of
                          None \<Rightarrow> (Inl NetworkError, log1)
                        | Some nodesBaseResponse \<Rightarrow>
                            if \<not> ok nodesBaseResponse then
                              (Inl (FetchFailed (''Failed to fetch nodes-base package: '' @
                                                 statusText nodesBaseResponse)), log1)
                            else
                              (case json nodesBaseResponse of
                                 None \<Rightarrow> (Inl JsonError, log1)
                               | Some nodesBaseData \<Rightarrow>
                                   (let nodeFiles = (case pm_nodes nodesBaseData of None \<Rightarrow> [] | Some fs \<Rightarrow> fs);
                                        log2 = log1 @ [LogInfo (''Found '' @ Number_toString rt (of_nat (length nodeFiles)) @
                                                                '' nodes in nodes-base'')]
                                    in case fetch (GITHUB_RAW_URL @ ''/packages/@n8n/n8n-nodes-langchain/package.json'') of
                                         None \<Rightarrow> (Inl NetworkError, log2)
                                       | Some langchainResponse \<Rightarrow>
                                           if ok langchainResponse then
                                             (case json langchainResponse of
                                                None \<Rightarrow> (Inl JsonError, log2)
                                              | Some langchainData \<Rightarrow>
                                                  (let langchainNodes =
                                                         (case pm_nodes langchainData of None \<Rightarrow> [] | Some fs \<Rightarrow> fs)
                                                   in (Inr \<lparr> cat_version = n8nVersion,
                                                             fetchedFrom = versionOrBranch,
                                                             nodesBase = nodeFiles,
                                                             langchain = langchainNodes,
                                                             timestamp = now \<rparr>,
                                                       log2 @ [LogInfo (''Found '' @
                                                                 Number_toString rt (of_nat (length langchainNodes)) @
                                                                 '' langchain nodes'')])))
                                           else
                                             (Inr \<lparr> cat_version = n8nVersion,
                                                    fetchedFrom = versionOrBranch,
                                                    nodesBase = nodeFiles,
                                                    langchain = [],
                                                    timestamp = now \<rparr>,
                                              log2 @ [LogWarn (''Could not fetch langchain nodes from '' @
                                                               versionOrBranch)]))))))"

text \<open>
  \<open>fetchNodeCatalogFromGitHub\<close>: the \<open>catch\<close> logs the error and throws it again.
\<close>

definition fetchNodeCatalogFromGitHub ::
    "js_runtime \<Rightarrow> (string \<Rightarrow> http_response option) \<Rightarrow> string \<Rightarrow> string \<Rightarrow>
     (fetch_error + node_catalog) \<times> log_entry list" where
  "fetchNodeCatalogFromGitHub rt fetch now versionOrBranch =
     (case fetch_catalog_body rt fetch now versionOrBranch of
        (Inl e, lg) \<Rightarrow>
          (Inl e, lg @ [LogError (''Failed to fetch node catalog from GitHub ('' @ versionOrBranch @ ''):'')])
      | (Inr c, lg) \<Rightarrow> (Inr c, lg))"

section \<open>The package scanner\<close>

text \<open>
  \<open>packageJson.n8n?.nodes\<close>: falsy, an array of module paths, or a truthy value that is
  not an array, with the number of its own keys. A loaded module answers a property read
  (\<open>m_get\<close>) and lists its own values (\<open>m_values\<close>, \<open>Object.values\<close>). The module
  system is the part of Node.js the loader calls: \<open>None\<close> is a throw. The console lines
  are written without the symbols that precede the words in the source.
\<close>

datatype nodes_decl = NodesAbsent | NodesArray "string list" | NodesOther nat

record loaded_module =
  m_get :: "string \<Rightarrow> node_class"
  m_values :: "node_class list"

record module_system =
  require_json :: "string \<Rightarrow> nodes_decl option"
  require_resolve :: "string \<Rightarrow> string option"
  require_module :: "string \<Rightarrow> loaded_module option"
  path_basename :: "string \<Rightarrow> string \<Rightarrow> string"

datatype console_line = ConsoleLog string | ConsoleError string

text \<open>
  \<open>nodePath.match(/\/([^\/]+)\.node\.(js|ts)$/)\<close>: the text after the last slash, when
  it ends in \<open>.node.js\<close> or \<open>.node.ts\<close> and is longer than that ending; the first group
  is what precedes the ending.
\<close>

definition nodeNameMatch :: "string \<Rightarrow> string option" where
  "nodeNameMatch nodePath =
     (let base = rev (takeWhile (\<lambda>c. c \<noteq> CHR ''/'') (rev nodePath))
      in if CHR ''/'' \<in> set nodePath \<and> (suffix ''.node.js'' base \<or> suffix ''.node.ts'' base) \<and>
            8 < length base
         then Some (take (length base - 8) base) else None)"

definition pick_class :: "loaded_module \<Rightarrow> string \<Rightarrow> node_class" where
  "pick_class nodeModule name =
     (if class_truthy (m_get nodeModule ''default'') then m_get nodeModule ''default''
      else if class_truthy (m_get nodeModule name) then m_get nodeModule name
      else (case m_values nodeModule of [] \<Rightarrow> NFalsy | v # vs \<Rightarrow> v))"

text \<open>
  One pass of the loop body of \<open>loadPackageNodes\<close>: the node it pushes, or \<open>None\<close> when
  the \<open>try\<close> block threw or the class is falsy.
\<close>

definition load_node :: "module_system \<Rightarrow> string \<Rightarrow> string \<Rightarrow> string \<Rightarrow> loaded_node option" where
  "load_node sys pkgName packagePath nodePath =
     (case require_resolve sys (packagePath @ ''/'' @ nodePath) of
        None \<Rightarrow> None
      | Some fullPath \<Rightarrow>
          (case require_module sys fullPath of
             None \<Rightarrow> None
           | Some nodeModule \<Rightarrow>
               (let name = (case nodeNameMatch nodePath of
                              Some n \<Rightarrow> n
                            | None \<Rightarrow> path_basename sys nodePath ''.node.js'');
                    cls = pick_class nodeModule name
                in if class_truthy cls
                   then Some \<lparr> packageName = pkgName, nodeName = name, NodeClass = cls \<rparr>
                   else None)))"

fun load_loop ::
    "module_system \<Rightarrow> string \<Rightarrow> string \<Rightarrow> string list \<Rightarrow>
     loaded_node list \<times> console_line list \<Rightarrow> loaded_node list \<times> console_line list" where
  "load_loop sys pkgName packagePath [] acc = acc"
| "load_loop sys pkgName packagePath (nodePath # rest) acc =
     load_loop sys pkgName packagePath rest
       (case load_node sys pkgName packagePath nodePath of
          None \<Rightarrow> acc
        | Some n \<Rightarrow> (fst acc @ [n], snd acc @ [ConsoleLog (''  Loaded '' @ nodeName n)]))"

definition loadPackageNodes ::
    "module_system \<Rightarrow> string \<Rightarrow> string \<Rightarrow> nodes_decl \<Rightarrow> loaded_node list \<times> console_line list" where
  "loadPackageNodes sys pkgName packagePath nodesDecl =
     (case nodesDecl of
        NodesArray nodesList \<Rightarrow> load_loop sys pkgName packagePath nodesList ([], [])
      | NodesAbsent \<Rightarrow> ([], [])
      | NodesOther k \<Rightarrow> ([], []))"

definition CORE_PACKAGES :: "(string \<times> string) list" where
  "CORE_PACKAGES =
     [(''n8n-nodes-base'', ''n8n-nodes-base''),
      (''@n8n/n8n-nodes-langchain'', ''@n8n/n8n-nodes-langchain'')]"

definition declared_count :: "nodes_decl \<Rightarrow> nat" where
  "declared_count d = (case d of NodesAbsent \<Rightarrow> 0 | NodesArray xs \<Rightarrow> length xs | NodesOther k \<Rightarrow> k)"

fun load_packages ::
    "js_runtime \<Rightarrow> module_system \<Rightarrow> (string \<times> string) list \<Rightarrow>
     loaded_node list \<times> console_line list \<Rightarrow> loaded_node list \<times> console_line list" where
  "load_packages rt sys [] acc = acc"
| "load_packages rt sys ((pkgName, pkgPath) # pkgs) acc =
     load_packages rt sys pkgs
       (let lg = snd acc @ [ConsoleLog (''Loading package: '' @ pkgName)]
        in case require_json sys (pkgPath @ ''/package.json'') of
             None \<Rightarrow> (fst acc, lg @ [ConsoleError (''Failed to load '' @ pkgName @ '':'')])
           | Some nodesDecl \<Rightarrow>
               (let found = loadPackageNodes sys pkgName pkgPath nodesDecl
                in (fst acc @ fst found,
                    lg @ [ConsoleLog (''  Found '' @ Number_toString rt (of_nat (declared_count nodesDecl)) @
                                      '' nodes in package.json'')] @ snd found)))"

definition loadAllNodes :: "js_runtime \<Rightarrow> module_system \<Rightarrow> loaded_node list \<times> console_line list" where
  "loadAllNodes rt sys = load_packages rt sys CORE_PACKAGES ([], [])"

section \<open>Definitions used to state the properties\<close>

text \<open>
  The rows that the loop of \<open>rebuild\<close> hands to \<open>insert.run\<close>, in the order of the
  loaded nodes, and the same rows with the time of their insertion, the first one being
  insertion number \<open>k\<close>.
\<close>

definition extracted :: "js_runtime \<Rightarrow> (string \<rightharpoonup> string) \<Rightarrow> loaded_node list \<Rightarrow> node_row list" where
  "extracted rt docsMap nodes =
     List.map_filter (\<lambda>n. case node_values rt docsMap n of Inl e \<Rightarrow> None | Inr r \<Rightarrow> Some r) nodes"

definition stamped :: "(nat \<Rightarrow> string) \<Rightarrow> nat \<Rightarrow> node_row list \<Rightarrow> node_row list" where
  "stamped clock k rows = map (\<lambda>(i, r). r\<lparr> updated_at := Some (clock i) \<rparr>) (enumerate k rows)"


text \<open>
  What the lookup derives from a stored payload: nothing for NULL, for the empty text and
  for a text that \<open>JSON.parse\<close> rejects, the parsed value otherwise. A payload is
  unparseable when it is a text, not empty, that \<open>JSON.parse\<close> rejects.
\<close>

definition derived :: "js_runtime \<Rightarrow> string option \<Rightarrow> jsval option" where
  "derived rt payload =
     (case payload of None \<Rightarrow> None | Some s \<Rightarrow> if s = [] then None else JSON_parse rt s)"

definition unparseable :: "js_runtime \<Rightarrow> string option \<Rightarrow> bool" where
  "unparseable rt payload =
     (case payload of None \<Rightarrow> False | Some s \<Rightarrow> s \<noteq> [] \<and> JSON_parse rt s = None)"

text \<open>The value of \<open>versions\<close> for a stored version text that is not empty.\<close>

definition stored_versions :: "js_runtime \<Rightarrow> string \<Rightarrow> jsval" where
  "stored_versions rt s =
     (case JSON_parse rt s of
        Some parsed \<Rightarrow> if isArray parsed then parsed else JArr [parseFloat rt s]
      | None \<Rightarrow> JArr [parseFloat rt s])"

definition derived_versions :: "js_runtime \<Rightarrow> string option \<Rightarrow> jsval option" where
  "derived_versions rt payload =
     (case payload of None \<Rightarrow> None | Some s \<Rightarrow> if s = [] then None else Some (stored_versions rt s))"

definition derived_latest :: "js_runtime \<Rightarrow> string option \<Rightarrow> jsval option" where
  "derived_latest rt payload =
     (case payload of
        None \<Rightarrow> None
      | Some s \<Rightarrow> if s = [] then None else Some (index0 (stored_versions rt s)))"

definition normalized :: "string \<Rightarrow> string" where
  "normalized t = replace_first ''n8n-nodes-base.'' ''nodes-base.'' t"

text \<open>
  A description with no descriptive content: no description, no subtitle, no parameter
  that has a description, no codex and no hints.
\<close>

definition no_descriptive_content :: "node_description \<Rightarrow> bool" where
  "no_descriptive_content d =
     (\<not> truthy (d_description d) \<and> \<not> truthy (d_subtitle d) \<and>
      (case d_properties d of
         PArray ps \<Rightarrow> list_all (\<lambda>p. \<not> truthy (p_description p)) ps
       | PAbsent \<Rightarrow> True
       | PNonArray v \<Rightarrow> True) \<and>
      d_codex d = None \<and> \<not> truthy (d_hints d))"

text \<open>
  A keyword without the wildcards of \<open>LIKE\<close>, and one without a NUL character. A text
  contains a keyword, or ends with it, upper and lower case ASCII letters being equal; a row
  contains it, or ends with it, when one of its four searched columns, read up to its first
  NUL character, does.
\<close>

definition wildcard_free :: "string \<Rightarrow> bool" where
  "wildcard_free k = (CHR ''%'' \<notin> set k \<and> CHR ''_'' \<notin> set k)"

definition nul_free :: "string \<Rightarrow> bool" where
  "nul_free k = (CHR 0x00 \<notin> set k)"

definition contains_ci :: "string \<Rightarrow> string \<Rightarrow> bool" where
  "contains_ci k t = sublist (map lower k) (map lower t)"

definition ends_ci :: "string \<Rightarrow> string \<Rightarrow> bool" where
  "ends_ci k t = suffix (map lower k) (map lower t)"

definition field_contains :: "string \<Rightarrow> node_row \<Rightarrow> bool" where
  "field_contains k r =
     (contains_ci k (c_string (node_type r)) \<or> contains_ci k (c_string (display_name r)) \<or>
      contains_ci k (c_string (description r)) \<or>
      (case documentation r of None \<Rightarrow> False | Some d \<Rightarrow> contains_ci k (c_string d)))"

definition field_ends_with :: "string \<Rightarrow> node_row \<Rightarrow> bool" where
  "field_ends_with k r =
     (ends_ci k (c_string (node_type r)) \<or> ends_ci k (c_string (display_name r)) \<or>
      ends_ci k (c_string (description r)) \<or>
      (case documentation r of None \<Rightarrow> False | Some d \<Rightarrow> ends_ci k (c_string d)))"

text \<open>
  The rows that the query of \<open>searchNodes\<close> selects, as result objects, for a keyword and
  an integer limit.
\<close>

definition search_rows :: "node_row list \<Rightarrow> string \<Rightarrow> int \<Rightarrow> jsobj list" where
  "search_rows db keyword n =
     map select_minimal (sql_limit n (filter (search_where (''%'' @ keyword @ ''%'')) db))"

text \<open>
  The manifest at a URL, when it can be retrieved: \<open>fetch\<close> resolves, the response is
  \<open>ok\<close> and its body parses. The URL of a file of the upstream repository at a tag.
\<close>

definition retrieved :: "(string \<Rightarrow> http_response option) \<Rightarrow> string \<Rightarrow> remote_manifest option" where
  "retrieved fetch url =
     (case fetch url of None \<Rightarrow> None | Some r \<Rightarrow> if ok r then json r else None)"

definition raw_url :: "string \<Rightarrow> string \<Rightarrow> string" where
  "raw_url tag file = ''https://raw.githubusercontent.com/n8n-io/n8n/'' @ tag @ file"

definition declared_nodes :: "remote_manifest \<Rightarrow> string list" where
  "declared_nodes m = (case pm_nodes m of None \<Rightarrow> [] | Some fs \<Rightarrow> fs)"

text \<open>The nodes that load, of a list of module paths, in the order of the list.\<close>

definition loaded_of :: "module_system \<Rightarrow> string \<Rightarrow> string \<Rightarrow> string list \<Rightarrow> loaded_node list" where
  "loaded_of sys pkgName packagePath paths = List.map_filter (load_node sys pkgName packagePath) paths"

section \<open>Concrete inputs for the examples\<close>

text \<open>
  A runtime that answers as JavaScript does on the payloads, texts and numbers of the
  examples, a clock, and two loaded nodes that declare the same name.
\<close>

definition demo_runtime :: js_runtime where
  "demo_runtime =
     \<lparr> JSON_stringify =
         (\<lambda>v. if v = JArr [JNum (13 / 5), JNum 2, JNum 1] then ''[2.6,2,1]''
              else if v = JObj [] then ''{}''
              else ''null''),
       JSON_parse =
         (\<lambda>s. if s = ''[2.6,2,1]'' then Some (JArr [JNum (13 / 5), JNum 2, JNum 1])
              else if s = ''1'' then Some (JNum 1)
              else if s = ''null'' then Some JNull
              else None),
       parseFloat = (\<lambda>s. if s = ''1'' then JNum 1 else JNaN),
       Number_toString =
         (\<lambda>r. if r = 1 then ''1'' else if r = 2 then ''2'' else if r = 3 then ''3'' else ''0'') \<rparr>"

definition demo_clock :: "nat \<Rightarrow> string" where
  "demo_clock k = (if k = 0 then ''t0'' else if k = 1 then ''t1'' else ''t2'')"

definition demo_class :: "node_description \<Rightarrow> node_class" where
  "demo_class d =
     NFunction \<lparr> s_nodeVersions = False, s_getNodeType = False, s_description = None \<rparr>
       (Some \<lparr> i_description = Some d, i_baseDescription = None, i_nodeVersions = None,
               i_getNodeType = False \<rparr>)"

definition demo_node :: "string \<Rightarrow> node_description \<Rightarrow> loaded_node" where
  "demo_node file d = \<lparr> packageName = ''n8n-nodes-base'', nodeName = file, NodeClass = demo_class d \<rparr>"

definition slack_v1 :: loaded_node where
  "slack_v1 = demo_node ''Slack'' (empty_description\<lparr> d_name := Some ''slack'', d_displayName := Some ''Slack'' \<rparr>)"

definition slack_v2 :: loaded_node where
  "slack_v2 = demo_node ''SlackV2'' (empty_description\<lparr> d_name := Some ''slack'', d_displayName := Some ''Slack v2'' \<rparr>)"

definition demo_db0 :: catalog_db where
  "demo_db0 = \<lparr> db_nodes = [], db_metadata = [] \<rparr>"


text \<open>
  Two loaded nodes without a name, and one whose \<open>properties\<close> field is an object and
  not an array.
\<close>

definition nameless_a :: loaded_node where
  "nameless_a = demo_node ''First'' (empty_description\<lparr> d_description := Some ''first'' \<rparr>)"

definition nameless_b :: loaded_node where
  "nameless_b = demo_node ''Second'' empty_description"

definition broken_node :: loaded_node where
  "broken_node = demo_node ''Broken'' (empty_description\<lparr> d_properties := PNonArray (JObj []) \<rparr>)"

text \<open>A loaded node that declares the version array \<open>[1, 2, 2.6]\<close>.\<close>

definition multi_version :: loaded_node where
  "multi_version =
     demo_node ''Multi'' (empty_description\<lparr> d_name := Some ''multi'', d_version := VArray [1, 2, 13 / 5] \<rparr>)"

text \<open>
  Stored rows: a row with every column at its default but the four given, a documented
  row, a row whose schema payload is not JSON, and a row whose schema payload is empty and
  whose version text is not JSON.
\<close>

definition demo_row :: "string \<Rightarrow> string \<Rightarrow> string \<Rightarrow> int \<Rightarrow> node_row" where
  "demo_row t dn cat ai =
     \<lparr> node_type = t, package_name = ''n8n-nodes-base'', display_name = dn, description = [],
       category = cat, documentation = None, properties_schema = None, operations = None,
       credentials_required = None, outputs = None, output_names = None,
       development_style = Some ''programmatic'', is_ai_tool = ai, is_trigger = 0, is_webhook = 0,
       is_versioned = 0, version = Some ''1'', updated_at = Some ''t0'', is_tool_variant = 0,
       has_tool_variant = 0, base_node_type = None, tool_variant_of = None \<rparr>"

definition slack_row :: node_row where
  "slack_row =
     (demo_row ''nodes-base.slack'' ''Slack'' ''output'' 0)
       \<lparr> documentation := Some ''# Slack'', properties_schema := Some ''[2.6,2,1]'',
         credentials_required := Some ''null'' \<rparr>"


definition broken_row :: node_row where
  "broken_row =
     (demo_row ''nodes-base.http'' ''HTTP Request'' ''output'' 0)
       \<lparr> documentation := Some ''# HTTP'', properties_schema := Some ''[{oops'',
         operations := Some ''[2.6,2,1]'' \<rparr>"

definition odd_row :: node_row where
  "odd_row =
     (demo_row ''nodes-base.odd'' ''Odd'' ''misc'' 0)
       \<lparr> properties_schema := Some [], version := Some ''abc'' \<rparr>"


text \<open>
  A module system in which the base package declares three node modules, the second of
  which cannot be resolved, and the other package has no manifest.
\<close>

definition demo_module :: loaded_module where
  "demo_module =
     \<lparr> m_get = (\<lambda>k. if k = ''default'' then demo_class empty_description else NFalsy),
       m_values = [demo_class empty_description] \<rparr>"

definition demo_paths :: "string list" where
  "demo_paths = [''dist/nodes/A/A.node.js'', ''dist/nodes/B/B.node.js'', ''dist/nodes/C/C.node.js'']"

definition demo_sys :: module_system where
  "demo_sys =
     \<lparr> require_json =
         (\<lambda>p. if p = ''n8n-nodes-base/package.json'' then Some (NodesArray demo_paths) else None),
       require_resolve =
         (\<lambda>p. if p = ''n8n-nodes-base/dist/nodes/B/B.node.js'' then None
              else Some (''/node_modules/'' @ p)),
       require_module = (\<lambda>p. Some demo_module),
       path_basename = (\<lambda>p ext. p) \<rparr>"

text \<open>
  Two answers of the upstream repository for the tag \<open>n8n@2.0.3\<close>: one without the
  manifest of the base package, one without the manifest of the extension package.
\<close>

definition not_found :: http_response where
  "not_found = \<lparr> ok = False, statusText = ''Not Found'', json = None \<rparr>"

definition found :: "remote_manifest \<Rightarrow> http_response" where
  "found m = \<lparr> ok = True, statusText = ''OK'', json = Some m \<rparr>"

definition fetch_without_base :: "string \<Rightarrow> http_response option" where
  "fetch_without_base url =
     (if url = ''https://raw.githubusercontent.com/n8n-io/n8n/n8n@2.0.3/packages/cli/package.json''
      then Some (found \<lparr> pm_version = Some ''2.0.3'', pm_nodes = None \<rparr>)
      else Some not_found)"

definition fetch_without_langchain :: "string \<Rightarrow> http_response option" where
  "fetch_without_langchain url =
     (if url = ''https://raw.githubusercontent.com/n8n-io/n8n/n8n@2.0.3/packages/cli/package.json''
      then Some (found \<lparr> pm_version = Some ''2.0.3'', pm_nodes = None \<rparr>)
      else if url = ''https://raw.githubusercontent.com/n8n-io/n8n/n8n@2.0.3/packages/nodes-base/package.json''
      then Some (found \<lparr> pm_version = Some ''2.0.3'',
                         pm_nodes = Some [''dist/nodes/A/A.node.js'', ''dist/nodes/C/C.node.js''] \<rparr>)
      else Some not_found)"

text \<open>The limits of a 64-bit V8 and of an SQLite built with its default limits.\<close>

definition demo_limits :: engine_limits where
  "demo_limits =
     \<lparr> max_string_length = 536870888, sqlite_max_length = 1000000000,
       like_pattern_length = 50000 \<rparr>"

section \<open>The rebuilt catalog has one row per node type\<close>

lemma extracted_Nil: "extracted rt d [] = []"
  by (simp add: extracted_def map_filter_simps)

lemma extracted_Cons:
  "extracted rt d (n # ns) =
     (case node_values rt d n of Inl e \<Rightarrow> extracted rt d ns | Inr r \<Rightarrow> r # extracted rt d ns)"
  by (simp add: extracted_def map_filter_simps split: sum.splits)

lemma step_table:
  "nodes_table (rebuild_step rt d c n st) =
     (case node_values rt d n of
        Inl e \<Rightarrow> nodes_table st
      | Inr r \<Rightarrow> insert_or_replace (r\<lparr> updated_at := Some (c (successful st)) \<rparr>) (nodes_table st))"
  by (simp add: rebuild_step_def Let_def split: sum.splits)

lemma step_successful:
  "successful (rebuild_step rt d c n st) =
     (case node_values rt d n of Inl e \<Rightarrow> successful st | Inr r \<Rightarrow> Suc (successful st))"
  by (simp add: rebuild_step_def Let_def split: sum.splits)

lemma loop_table:
  "nodes_table (rebuild_loop rt d c ns st) =
     fold insert_or_replace (stamped c (successful st) (extracted rt d ns)) (nodes_table st)"
proof (induction ns arbitrary: st)
  case Nil
  then show ?case by (simp add: extracted_Nil stamped_def)
next
  case (Cons n ns)
  show ?case
  proof (cases "node_values rt d n")
    case (Inl e)
    then show ?thesis
      using Cons.IH [of "rebuild_step rt d c n st"]
      by (simp add: extracted_Cons step_table step_successful)
  next
    case (Inr r)
    then show ?thesis
      using Cons.IH [of "rebuild_step rt d c n st"]
      by (simp add: extracted_Cons step_table step_successful stamped_def)
  qed
qed

lemma find_insert_or_replace:
  "find (\<lambda>r. node_type r = k) (insert_or_replace row tbl) =
     (if node_type row = k then Some row else find (\<lambda>r. node_type r = k) tbl)"
proof (induction tbl)
  case Nil
  then show ?case by (simp add: insert_or_replace_def)
next
  case (Cons a tbl)
  then show ?case by (auto simp add: insert_or_replace_def)
qed

lemma find_app:
  "find P (xs @ ys) = (case find P xs of Some x \<Rightarrow> Some x | None \<Rightarrow> find P ys)"
  by (induction xs) simp_all

lemma find_fold_insert:
  "find (\<lambda>r. node_type r = k) (fold insert_or_replace rows tbl) =
     (case find (\<lambda>r. node_type r = k) (rev rows) of
        Some r \<Rightarrow> Some r
      | None \<Rightarrow> find (\<lambda>r. node_type r = k) tbl)"
proof (induction rows arbitrary: tbl)
  case Nil
  then show ?case by simp
next
  case (Cons a rows)
  show ?case
    by (simp add: Cons.IH find_insert_or_replace find_app split: option.splits)
qed

lemma distinct_insert_or_replace:
  "distinct (map node_type tbl) \<Longrightarrow> distinct (map node_type (insert_or_replace row tbl))"
  by (auto simp add: insert_or_replace_def distinct_map_filter)

lemma distinct_fold_insert:
  "distinct (map node_type tbl) \<Longrightarrow> distinct (map node_type (fold insert_or_replace rows tbl))"
  by (induction rows arbitrary: tbl) (simp_all add: distinct_insert_or_replace)

lemma types_insert_or_replace:
  "node_type ` set (insert_or_replace row tbl) = insert (node_type row) (node_type ` set tbl)"
  by (auto simp add: insert_or_replace_def)

lemma types_fold_insert:
  "node_type ` set (fold insert_or_replace rows tbl) = node_type ` set rows \<union> node_type ` set tbl"
proof (induction rows arbitrary: tbl)
  case Nil
  then show ?case by simp
next
  case (Cons a rows)
  show ?case
    by (simp add: Cons.IH types_insert_or_replace)
qed

lemma stamped_types: "map node_type (stamped c k rows) = map node_type rows"
  by (induction rows arbitrary: k) (simp_all add: stamped_def)

lemmas demo_simps = demo_runtime_def demo_clock_def demo_class_def demo_node_def slack_v1_def slack_v2_def
  nameless_a_def nameless_b_def broken_node_def multi_version_def
  node_values_def getNodeDescription_def extractNodeType_def isVersionedNode_def extractVersion_def
  extractOperations_def extractDocumentation_def doc_parts_def property_docs_def empty_description_def
  or_else_def js_or_def truthy_def tmpl_def Let_def extracted_Cons extracted_Nil stamped_def

lemma filter_by_find:
  "distinct (map node_type tbl) \<Longrightarrow>
   filter (\<lambda>r. node_type r = k) tbl =
     (case find (\<lambda>r. node_type r = k) tbl of None \<Rightarrow> [] | Some r \<Rightarrow> [r])"
proof (induction tbl)
  case Nil
  then show ?case by simp
next
  case (Cons a tbl)
  have fresh: "node_type a \<notin> node_type ` set tbl" and rest: "distinct (map node_type tbl)"
    using Cons.prems by simp_all
  have "filter (\<lambda>r. node_type r = k) tbl = []" if "node_type a = k"
  proof -
    have "\<forall>x\<in>set tbl. node_type x \<noteq> k"
      using fresh that by blast
    then show ?thesis by (simp add: filter_empty_conv)
  qed
  then show ?case using Cons.IH [OF rest] by auto
qed

lemma find_rev_last:
  "find P (rev xs) = (if filter P xs = [] then None else Some (last (filter P xs)))"
  by (induction xs) (auto simp add: find_app split: option.splits)

lemma unknown_iff_nameless:
  "extractNodeType dsc pkg = ''unknown'' \<longleftrightarrow> \<not> truthy (d_name dsc)"
proof (cases "d_name dsc")
  case None
  then show ?thesis by (simp add: extractNodeType_def truthy_def)
next
  case (Some name)
  show ?thesis
  proof (cases "name = []")
    case True
    with Some show ?thesis by (simp add: extractNodeType_def truthy_def)
  next
    case False
    show ?thesis
    proof (cases "CHR ''.'' \<in> set name")
      case True
      then have "name \<noteq> ''unknown''" by auto
      with Some False True show ?thesis by (simp add: extractNodeType_def truthy_def)
    next
      case nodot: False
      have "CHR ''.'' \<in> set (replace_first ''n8n-'' [] (replace_first ''@n8n/'' [] pkg) @ ''.'' @ name)"
        by simp
      moreover have "CHR ''.'' \<notin> set ''unknown''"
        by simp
      ultimately have "replace_first ''n8n-'' [] (replace_first ''@n8n/'' [] pkg) @ ''.'' @ name \<noteq> ''unknown''"
        by metis
      with Some False nodot show ?thesis by (simp add: extractNodeType_def truthy_def)
    qed
  qed
qed

lemma node_values_type:
  "node_values rt d n = Inr r \<Longrightarrow>
   node_type r = extractNodeType (getNodeDescription (NodeClass n)) (packageName n)"
  by (auto simp add: node_values_def Let_def split: sum.splits)

lemma node_values_throws:
  "node_values rt d n = Inl e \<Longrightarrow> \<exists>v. d_properties (getNodeDescription (NodeClass n)) = PNonArray v"
  by (auto simp add: node_values_def extractOperations_def Let_def
      split: sum.splits properties_decl.splits option.splits if_splits)

text \<open>
  C1. After a rebuild the table \<open>nodes\<close> holds exactly one row for each node type that
  the loaded nodes produce: the node types of its rows are distinct, they are the node
  types of the inserted rows, and the row kept for a type is the last row inserted with
  that type, with every column and the timestamp of that insertion.
\<close>

theorem rebuild_one_row_per_type:
  "distinct (map node_type (db_nodes (fst (rebuild rt docsMap clock tag now old nodes)))) \<and>
   set (map node_type (db_nodes (fst (rebuild rt docsMap clock tag now old nodes)))) =
     set (map node_type (extracted rt docsMap nodes)) \<and>
   length (db_nodes (fst (rebuild rt docsMap clock tag now old nodes))) =
     card (set (map node_type (extracted rt docsMap nodes))) \<and>
   (\<forall>k. find (\<lambda>r. node_type r = k) (db_nodes (fst (rebuild rt docsMap clock tag now old nodes))) =
        find (\<lambda>r. node_type r = k) (rev (stamped clock 0 (extracted rt docsMap nodes))))"
proof -
  let ?rows = "stamped clock 0 (extracted rt docsMap nodes)"
  let ?tbl = "db_nodes (fst (rebuild rt docsMap clock tag now old nodes))"
  have tbl: "?tbl = fold insert_or_replace ?rows []"
    by (simp add: rebuild_def Let_def loop_table)
  have d: "distinct (map node_type ?tbl)"
    unfolding tbl by (rule distinct_fold_insert) simp
  have s: "set (map node_type ?tbl) = set (map node_type (extracted rt docsMap nodes))"
    unfolding tbl using types_fold_insert [of ?rows "[]"] stamped_types [of clock 0 "extracted rt docsMap nodes"]
    by (metis image_empty list.set(1) set_map sup_bot.right_neutral)
  have l: "length ?tbl = card (set (map node_type (extracted rt docsMap nodes)))"
    using distinct_card [OF d] s by (metis length_map)
  have f: "\<forall>k. find (\<lambda>r. node_type r = k) ?tbl = find (\<lambda>r. node_type r = k) (rev ?rows)"
    unfolding tbl by (simp add: find_fold_insert split: option.splits)
  from d s l f show ?thesis by blast
qed


theorem rebuild_one_row_per_type_witness:
  "length (db_nodes (fst (rebuild demo_runtime Map.empty demo_clock ''n8n@2.0.3'' ''now'' demo_db0
                            [slack_v1, slack_v2]))) = 1 \<and>
   map_option (\<lambda>r. (display_name r, updated_at r))
     (find (\<lambda>r. node_type r = ''nodes-base.slack'')
        (db_nodes (fst (rebuild demo_runtime Map.empty demo_clock ''n8n@2.0.3'' ''now'' demo_db0
                          [slack_v1, slack_v2])))) =
     Some (''Slack v2'', Some ''t1'')"
proof -
  have ex: "map (\<lambda>r. (node_type r, display_name r))
              (extracted demo_runtime Map.empty [slack_v1, slack_v2]) =
            [(''nodes-base.slack'', ''Slack''), (''nodes-base.slack'', ''Slack v2'')]"
    by (simp add: demo_simps)
  then obtain a b where ab: "extracted demo_runtime Map.empty [slack_v1, slack_v2] = [a, b]"
    and a: "node_type a = ''nodes-base.slack''" and b: "node_type b = ''nodes-base.slack''"
    and b': "display_name b = ''Slack v2''"
    by auto
  have st: "stamped demo_clock 0 [a, b] = [a\<lparr>updated_at := Some ''t0''\<rparr>, b\<lparr>updated_at := Some ''t1''\<rparr>]"
    by (simp add: stamped_def demo_clock_def)
  have cd: "card (set (map node_type [a, b])) = 1"
    by (simp add: a b)
  have fd: "find (\<lambda>r. node_type r = ''nodes-base.slack'') (rev (stamped demo_clock 0 [a, b])) =
            Some (b\<lparr>updated_at := Some ''t1''\<rparr>)"
    unfolding st by (simp add: b)
  show ?thesis
    using rebuild_one_row_per_type [of demo_runtime Map.empty demo_clock "''n8n@2.0.3''" "''now''"
            demo_db0 "[slack_v1, slack_v2]"]
    unfolding ab by (simp only: cd fd) (simp add: b')
qed

text \<open>
  C9. A node whose description has no name (undefined or empty) gets the node type
  \<open>unknown\<close>, and only such a node does. The missing name does not skip the node: the
  loop body throws, in this model, only for a properties field that is not an array. After
  a rebuild the table holds at most one row of type \<open>unknown\<close>: the last one inserted.
\<close>

theorem nameless_nodes_collapse:
  "(\<forall>r. node_values rt docsMap n = Inr r \<longrightarrow>
        (node_type r = ''unknown'') = (\<not> truthy (d_name (getNodeDescription (NodeClass n))))) \<and>
   (\<forall>e. node_values rt docsMap n = Inl e \<longrightarrow>
        (\<exists>v. d_properties (getNodeDescription (NodeClass n)) = PNonArray v)) \<and>
   filter (\<lambda>r. node_type r = ''unknown'')
     (db_nodes (fst (rebuild rt docsMap clock tag now old nodes))) =
     (if filter (\<lambda>r. node_type r = ''unknown'') (stamped clock 0 (extracted rt docsMap nodes)) = []
      then []
      else [last (filter (\<lambda>r. node_type r = ''unknown'') (stamped clock 0 (extracted rt docsMap nodes)))])"
proof -
  let ?rows = "stamped clock 0 (extracted rt docsMap nodes)"
  let ?tbl = "db_nodes (fst (rebuild rt docsMap clock tag now old nodes))"
  have tbl: "?tbl = fold insert_or_replace ?rows []"
    by (simp add: rebuild_def Let_def loop_table)
  have d: "distinct (map node_type ?tbl)"
    unfolding tbl by (rule distinct_fold_insert) simp
  have f: "find (\<lambda>r. node_type r = ''unknown'') ?tbl = find (\<lambda>r. node_type r = ''unknown'') (rev ?rows)"
    unfolding tbl by (simp add: find_fold_insert split: option.splits)
  have c: "filter (\<lambda>r. node_type r = ''unknown'') ?tbl =
     (if filter (\<lambda>r. node_type r = ''unknown'') ?rows = [] then []
      else [last (filter (\<lambda>r. node_type r = ''unknown'') ?rows)])"
    by (simp only: filter_by_find [OF d] f find_rev_last) simp
  have a: "\<forall>r. node_values rt docsMap n = Inr r \<longrightarrow>
        (node_type r = ''unknown'') = (\<not> truthy (d_name (getNodeDescription (NodeClass n))))"
    using node_values_type unknown_iff_nameless by metis
  have b: "\<forall>e. node_values rt docsMap n = Inl e \<longrightarrow>
        (\<exists>v. d_properties (getNodeDescription (NodeClass n)) = PNonArray v)"
    using node_values_throws by blast
  from a b c show ?thesis by blast
qed


theorem nameless_nodes_collapse_witness:
  "map_sum id node_type (node_values demo_runtime Map.empty nameless_a) = Inr ''unknown'' \<and>
   node_values demo_runtime Map.empty broken_node = Inl TypeError \<and>
   d_properties (getNodeDescription (NodeClass broken_node)) = PNonArray (JObj []) \<and>
   map (\<lambda>r. (display_name r, updated_at r))
     (filter (\<lambda>r. node_type r = ''unknown'')
        (db_nodes (fst (rebuild demo_runtime Map.empty demo_clock ''n8n@2.0.3'' ''now'' demo_db0
                          [nameless_a, slack_v1, nameless_b, broken_node])))) =
     [(''Second'', Some ''t2'')]"
proof -
  have ex: "map (\<lambda>r. (node_type r, display_name r))
              (extracted demo_runtime Map.empty [nameless_a, slack_v1, nameless_b, broken_node]) =
            [(''unknown'', ''First''), (''nodes-base.slack'', ''Slack''), (''unknown'', ''Second'')]"
    by (simp add: demo_simps)
  then obtain a s b where ab:
      "extracted demo_runtime Map.empty [nameless_a, slack_v1, nameless_b, broken_node] = [a, s, b]"
    and a: "node_type a = ''unknown''" and s: "node_type s = ''nodes-base.slack''"
    and b: "node_type b = ''unknown''" and b': "display_name b = ''Second''"
    by auto
  have st: "stamped demo_clock 0 [a, s, b] =
              [a\<lparr>updated_at := Some ''t0''\<rparr>, s\<lparr>updated_at := Some ''t1''\<rparr>, b\<lparr>updated_at := Some ''t2''\<rparr>]"
    by (simp add: stamped_def demo_clock_def)
  have fl: "filter (\<lambda>r. node_type r = ''unknown'') (stamped demo_clock 0 [a, s, b]) =
              [a\<lparr>updated_at := Some ''t0''\<rparr>, b\<lparr>updated_at := Some ''t2''\<rparr>]"
    unfolding st by (simp add: a s b)
  have one: "map_sum id node_type (node_values demo_runtime Map.empty nameless_a) = Inr ''unknown''"
    by (simp add: demo_simps)
  have two: "node_values demo_runtime Map.empty broken_node = Inl TypeError"
    by (simp add: demo_simps)
  have three: "d_properties (getNodeDescription (NodeClass broken_node)) = PNonArray (JObj [])"
    by (simp add: demo_simps)
  have four: "filter (\<lambda>r. node_type r = ''unknown'')
        (db_nodes (fst (rebuild demo_runtime Map.empty demo_clock ''n8n@2.0.3'' ''now'' demo_db0
                          [nameless_a, slack_v1, nameless_b, broken_node]))) =
        [b\<lparr>updated_at := Some ''t2''\<rparr>]"
    using nameless_nodes_collapse [of demo_runtime Map.empty nameless_a demo_clock "''n8n@2.0.3''"
            "''now''" demo_db0 "[nameless_a, slack_v1, nameless_b, broken_node]"]
    unfolding ab fl by simp
  show ?thesis
    using one two three by (simp add: four b')
qed

section \<open>The version list survives storage\<close>

lemma insert_desc_mset: "mset (insert_desc x xs) = add_mset x (mset xs)"
  by (induction xs) simp_all

lemma sort_desc_mset: "mset (sort_desc xs) = mset xs"
  by (induction xs) (simp_all add: insert_desc_mset)

lemma sort_desc_set: "set (sort_desc xs) = set xs"
  by (metis sort_desc_mset set_mset_mset)

lemma insert_desc_set: "set (insert_desc x xs) = insert x (set xs)"
  by (metis insert_desc_mset set_mset_mset set_mset_add_mset_insert)

lemma insert_desc_sorted:
  "sorted_wrt (\<lambda>a b. b \<le> a) xs \<Longrightarrow> sorted_wrt (\<lambda>a b. b \<le> a) (insert_desc x xs)"
  by (induction xs) (auto simp add: insert_desc_set)

lemma sort_desc_sorted: "sorted_wrt (\<lambda>a b. b \<le> a) (sort_desc xs)"
  by (induction xs) (simp_all add: insert_desc_sorted)

lemma sort_desc_distinct: "distinct (sort_desc xs) = distinct xs"
  by (metis sort_desc_mset mset_eq_imp_distinct_iff)

lemma sort_desc_Nil: "sort_desc xs = [] \<longleftrightarrow> xs = []"
  by (metis sort_desc_mset mset_zero_iff)

lemma sort_desc_head:
  assumes "xs \<noteq> []"
  shows "index0 (JArr (map JNum (sort_desc xs))) = JNum (Max (set xs))"
proof -
  obtain y ys where ys: "sort_desc xs = y # ys"
    using assms sort_desc_Nil by (cases "sort_desc xs") auto
  have "\<forall>z\<in>set ys. z \<le> y"
    using sort_desc_sorted [of xs] unfolding ys by simp
  then have "\<forall>z\<in>set xs. z \<le> y"
    using sort_desc_set [of xs] unfolding ys by auto
  moreover have "y \<in> set xs"
    using sort_desc_set [of xs] unfolding ys by auto
  ultimately have "Max (set xs) = y"
    by (simp add: Max_eqI)
  then show ?thesis by (simp add: ys)
qed

lemma map_of_set_prop_same: "map_of (set_prop k v obj) k = Some v"
  by (induction obj) auto

lemma map_of_set_prop_other: "k' \<noteq> k \<Longrightarrow> map_of (set_prop k v obj) k' = map_of obj k'"
  by (induction obj) auto

lemma extractVersion_declared:
  assumes "construct nodeClass = Some inst"
    and "i_nodeVersions inst = Some vs \<or>
         (i_nodeVersions inst = None \<and>
          (i_description inst = Some dsc \<or> (i_description inst = None \<and> i_baseDescription inst = Some dsc)) \<and>
          d_version dsc = VArray vs)"
  shows "extractVersion rt nodeClass = JSON_stringify rt (JArr (map JNum (sort_desc vs)))"
  using assms by (auto simp add: extractVersion_def)

lemma parse_version_array:
  assumes "JSON_parse rt s = Some (JArr xs)" and "s \<noteq> []"
  shows "parse_version rt (Some s) obj =
           set_prop ''latest_version'' (index0 (JArr xs)) (set_prop ''versions'' (JArr xs) obj)"
  using assms by (simp add: parse_version_def Let_def)

lemma node_values_version:
  "node_values rt d n = Inr r \<Longrightarrow> version r = Some (extractVersion rt (NodeClass n))"
  by (auto simp add: node_values_def Let_def split: sum.splits)

text \<open>
  C2. Let a node class construct an instance that declares its versions as the keys of
  \<open>nodeVersions\<close> or, without \<open>nodeVersions\<close>, as an array in the \<open>version\<close>
  field of its description. If \<open>JSON.parse\<close> gives back the array that
  \<open>JSON.stringify\<close> wrote, then the lookup of a row that stores the extracted version
  returns as \<open>versions\<close> the declared numbers in descending order, the same numbers
  with the same multiplicities (so the same set, without repetition when the declaration
  has none), and as \<open>latest_version\<close> the greatest of them.
\<close>

theorem version_round_trip:
  assumes "construct nodeClass = Some inst"
    and "i_nodeVersions inst = Some vs \<or>
         (i_nodeVersions inst = None \<and>
          (i_description inst = Some dsc \<or> (i_description inst = None \<and> i_baseDescription inst = Some dsc)) \<and>
          d_version dsc = VArray vs)"
    and "JSON_stringify rt (JArr (map JNum (sort_desc vs))) \<noteq> []"
    and "JSON_parse rt (JSON_stringify rt (JArr (map JNum (sort_desc vs)))) =
           Some (JArr (map JNum (sort_desc vs)))"
    and "find (\<lambda>r. node_type r = normalized t) db = Some row"
    and "version row = Some (extractVersion rt nodeClass)"
  shows "\<exists>obj. fst (getNodeInfo rt db t) = Some obj \<and>
           map_of obj ''versions'' = Some (JArr (map JNum (sort_desc vs))) \<and>
           map_of obj ''latest_version'' = Some (if vs = [] then JUndefined else JNum (Max (set vs))) \<and>
           sorted_wrt (\<lambda>a b. b \<le> a) (sort_desc vs) \<and>
           mset (sort_desc vs) = mset vs \<and>
           set (sort_desc vs) = set vs \<and>
           distinct (sort_desc vs) = distinct vs"
proof -
  let ?ws = "map JNum (sort_desc vs)"
  have ev: "extractVersion rt nodeClass = JSON_stringify rt (JArr ?ws)"
    using assms(1,2) by (rule extractVersion_declared)
  define o3 where "o3 = fst (parse_field rt (credentials_required row) ''credentials''
                          (''Failed to parse credentials for '' @ t)
                       (parse_field rt (operations row) ''operations_list''
                          (''Failed to parse operations for '' @ t)
                       (parse_field rt (properties_schema row) ''properties''
                          (''Failed to parse properties_schema for '' @ t) (select_all row, []))))"
  have res: "fst (getNodeInfo rt db t) = Some (parse_version rt (version row) o3)"
    using assms(5) by (simp add: getNodeInfo_def normalized_def Let_def o3_def)
  have pv: "parse_version rt (version row) o3 =
              set_prop ''latest_version'' (index0 (JArr ?ws)) (set_prop ''versions'' (JArr ?ws) o3)"
    using assms(3,4,6) ev by (simp add: parse_version_array)
  have hd: "index0 (JArr ?ws) = (if vs = [] then JUndefined else JNum (Max (set vs)))"
    using sort_desc_head [of vs] by simp
  show ?thesis
    unfolding res pv hd
    by (simp add: map_of_set_prop_same map_of_set_prop_other sort_desc_sorted sort_desc_mset
        sort_desc_set sort_desc_distinct)
qed


theorem version_round_trip_witness:
  "\<exists>obj. fst (getNodeInfo demo_runtime
                (db_nodes (fst (rebuild demo_runtime Map.empty demo_clock ''n8n@2.0.3'' ''now'' demo_db0
                                  [multi_version])))
                ''n8n-nodes-base.multi'') = Some obj \<and>
         map_of obj ''versions'' = Some (JArr [JNum (13 / 5), JNum 2, JNum 1]) \<and>
         map_of obj ''latest_version'' = Some (JNum (13 / 5))"
proof -
  let ?inst = "\<lparr> i_description = Some (empty_description\<lparr> d_name := Some ''multi'', d_version := VArray [1, 2, 13 / 5] \<rparr>),
                 i_baseDescription = None, i_nodeVersions = None, i_getNodeType = False \<rparr>"
  let ?dsc = "empty_description\<lparr> d_name := Some ''multi'', d_version := VArray [1, 2, 13 / 5] \<rparr>"
  let ?vs = "[1, 2, 13 / 5] :: rat list"
  have sd: "sort_desc ?vs = [13 / 5, 2, 1]"
    by simp
  have h1: "construct (NodeClass multi_version) = Some ?inst"
    by (simp add: multi_version_def demo_node_def demo_class_def)
  have h2: "i_nodeVersions ?inst = Some ?vs \<or>
         (i_nodeVersions ?inst = None \<and>
          (i_description ?inst = Some ?dsc \<or> (i_description ?inst = None \<and> i_baseDescription ?inst = Some ?dsc)) \<and>
          d_version ?dsc = VArray ?vs)"
    by simp
  have h3: "JSON_stringify demo_runtime (JArr (map JNum (sort_desc ?vs))) \<noteq> []"
    unfolding sd by (simp add: demo_runtime_def)
  have h4: "JSON_parse demo_runtime (JSON_stringify demo_runtime (JArr (map JNum (sort_desc ?vs)))) =
              Some (JArr (map JNum (sort_desc ?vs)))"
    unfolding sd by (simp add: demo_runtime_def)
  have ex: "map_sum id node_type (node_values demo_runtime Map.empty multi_version) = Inr ''nodes-base.multi''"
    by (simp add: demo_simps)
  then obtain a where a: "node_values demo_runtime Map.empty multi_version = Inr a"
    and ta: "node_type a = ''nodes-base.multi''"
    by (cases "node_values demo_runtime Map.empty multi_version") auto
  have db: "db_nodes (fst (rebuild demo_runtime Map.empty demo_clock ''n8n@2.0.3'' ''now'' demo_db0 [multi_version])) =
              [a\<lparr>updated_at := Some ''t0''\<rparr>]"
    by (simp add: rebuild_def Let_def rebuild_step_def a insert_or_replace_def demo_clock_def)
  have h5: "find (\<lambda>r. node_type r = normalized ''n8n-nodes-base.multi'')
              [a\<lparr>updated_at := Some ''t0''\<rparr>] = Some (a\<lparr>updated_at := Some ''t0''\<rparr>)"
    by (simp add: ta normalized_def)
  have h6: "version (a\<lparr>updated_at := Some ''t0''\<rparr>) = Some (extractVersion demo_runtime (NodeClass multi_version))"
    using node_values_version [OF a] by simp
  have mx: "Max (set ?vs) = 13 / 5"
    by simp
  obtain obj where
      r: "fst (getNodeInfo demo_runtime [a\<lparr>updated_at := Some ''t0''\<rparr>] ''n8n-nodes-base.multi'') = Some obj"
    and v: "map_of obj ''versions'' = Some (JArr (map JNum (sort_desc ?vs)))"
    and l: "map_of obj ''latest_version'' = Some (if ?vs = [] then JUndefined else JNum (Max (set ?vs)))"
    using version_round_trip [OF h1 h2 h3 h4 h5 h6] by blast
  have v': "map_of obj ''versions'' = Some (JArr [JNum (13 / 5), JNum 2, JNum 1])"
    using v unfolding sd by simp
  have l': "map_of obj ''latest_version'' = Some (JNum (13 / 5))"
    using l unfolding mx by simp
  show ?thesis
    unfolding db using r v' l' by blast
qed


section \<open>Search results and the full lookup\<close>

lemma parse_field_other:
  "k \<noteq> target \<Longrightarrow> map_of (fst (parse_field rt p target msg st)) k = map_of (fst st) k"
  by (simp add: parse_field_def map_of_set_prop_other split: option.splits)

lemma parse_field_target:
  "map_of (fst (parse_field rt p target msg st)) target =
     (case derived rt p of Some v \<Rightarrow> Some v | None \<Rightarrow> map_of (fst st) target)"
  by (auto simp add: parse_field_def derived_def map_of_set_prop_same split: option.splits)

lemma parse_field_log:
  "snd (parse_field rt p target msg st) = snd st @ (if unparseable rt p then [LogError msg] else [])"
  by (auto simp add: parse_field_def unparseable_def split: option.splits)

lemma parse_version_other:
  "k \<noteq> ''versions'' \<Longrightarrow> k \<noteq> ''latest_version'' \<Longrightarrow> map_of (parse_version rt p obj) k = map_of obj k"
  by (simp add: parse_version_def Let_def map_of_set_prop_other split: option.splits)

lemma parse_version_versions:
  "map_of (parse_version rt p obj) ''versions'' =
     (case derived_versions rt p of Some v \<Rightarrow> Some v | None \<Rightarrow> map_of obj ''versions'')"
  by (auto simp add: parse_version_def derived_versions_def stored_versions_def Let_def
      map_of_set_prop_same map_of_set_prop_other split: option.splits)

lemma parse_version_latest:
  "map_of (parse_version rt p obj) ''latest_version'' =
     (case derived_latest rt p of Some v \<Rightarrow> Some v | None \<Rightarrow> map_of obj ''latest_version'')"
  by (auto simp add: parse_version_def derived_latest_def stored_versions_def Let_def
      map_of_set_prop_same split: option.splits)

lemma select_all_keys:
  "map fst (select_all r) =
     [''node_type'', ''package_name'', ''display_name'', ''description'', ''category'',
      ''documentation'', ''properties_schema'', ''operations'', ''credentials_required'',
      ''outputs'', ''output_names'', ''development_style'', ''is_ai_tool'', ''is_trigger'',
      ''is_webhook'', ''is_versioned'', ''version'', ''updated_at'', ''is_tool_variant'',
      ''has_tool_variant'', ''base_node_type'', ''tool_variant_of'']"
  by (simp add: select_all_def)

lemma select_all_no_derived:
  "map_of (select_all r) ''properties'' = None"
  "map_of (select_all r) ''operations_list'' = None"
  "map_of (select_all r) ''credentials'' = None"
  "map_of (select_all r) ''versions'' = None"
  "map_of (select_all r) ''latest_version'' = None"
  by (simp_all add: select_all_def)

lemma stored_key_not_derived:
  assumes "k \<in> set (map fst (select_all r))"
  shows "k \<noteq> ''properties'' \<and> k \<noteq> ''operations_list'' \<and> k \<noteq> ''credentials'' \<and>
         k \<noteq> ''versions'' \<and> k \<noteq> ''latest_version''"
  using assms unfolding select_all_keys by auto

lemmas row_simps = demo_row_def slack_row_def broken_row_def odd_row_def

lemma select_minimal_keys:
  "map fst (select_minimal r) =
     [''node_type'', ''package_name'', ''display_name'', ''description'', ''category'',
      ''is_ai_tool'', ''is_trigger'', ''is_webhook'']"
  by (simp add: select_minimal_def)

lemma getNodeInfo_columns:
  assumes "find (\<lambda>r. node_type r = normalized t) db = Some row"
    and "k \<in> set (map fst (select_all row))"
  shows "\<exists>obj. fst (getNodeInfo rt db t) = Some obj \<and> map_of obj k = map_of (select_all row) k"
proof -
  have n: "k \<noteq> ''properties'' \<and> k \<noteq> ''operations_list'' \<and> k \<noteq> ''credentials'' \<and>
         k \<noteq> ''versions'' \<and> k \<noteq> ''latest_version''"
    using assms(2) by (rule stored_key_not_derived)
  show ?thesis
    using assms(1) n
    by (simp add: getNodeInfo_def normalized_def Let_def parse_version_other parse_field_other)
qed

lemma utf8_length_append: "utf8_length (xs @ ys) = utf8_length xs + utf8_length ys"
  by (simp add: utf8_length_def)

lemma utf8_length_le: "utf8_length s \<le> 2 * length s"
  using length_filter_le [of "\<lambda>c. 128 \<le> (of_char c :: nat)" s]
  by (simp add: utf8_length_def)

lemma demo_pattern_fits:
  assumes "length k \<le> 100"
  shows "\<not> max_string_length demo_limits < length (''%'' @ k @ ''%'')"
    and "\<not> sqlite_max_length demo_limits < utf8_length (''%'' @ k @ ''%'')"
    and "\<not> like_pattern_length demo_limits < utf8_length (''%'' @ k @ ''%'')"
  using assms utf8_length_le [of "''%'' @ k @ ''%''"]
  by (simp_all add: demo_limits_def)

lemma demo_message_fits:
  "length k \<le> 100 \<Longrightarrow>
   \<not> max_string_length demo_limits < length (found_message demo_runtime n k)"
  by (simp add: demo_limits_def found_message_def demo_runtime_def)

lemma demo_search:
  assumes "length k \<le> 100" and "limit_value l = Some n"
  shows "fst (searchNodes demo_runtime demo_limits db k l) = Inr (search_rows db k n)"
  unfolding searchNodes_def run_search_query_def Let_def search_rows_def [symmetric]
  using demo_pattern_fits [OF assms(1)] demo_message_fits [OF assms(1)]
  by (simp add: assms(2))

lemma search_result_shape:
  "fst (searchNodes rt limits db keyword limit) = Inr objs \<Longrightarrow> obj \<in> set objs \<Longrightarrow>
   \<exists>r. obj = select_minimal r"
  by (auto simp add: searchNodes_def run_search_query_def Let_def
      split: if_splits option.splits sum.splits)

text \<open>
  C5. Every object that \<open>searchNodes\<close> returns has exactly the eight selected columns
  as its keys, so it has no \<open>documentation\<close>, \<open>properties_schema\<close> or
  \<open>credentials_required\<close> key; \<open>getNodeInfo\<close>, when it finds the row, returns an object
  that holds these three columns with their stored values.
\<close>

theorem search_projection_and_full_lookup:
  "(\<forall>objs. fst (searchNodes rt limits db keyword limit) = Inr objs \<longrightarrow>
      (\<forall>obj\<in>set objs.
         map fst obj = [''node_type'', ''package_name'', ''display_name'', ''description'', ''category'',
                        ''is_ai_tool'', ''is_trigger'', ''is_webhook''] \<and>
         ''documentation'' \<notin> set (map fst obj) \<and>
         ''properties_schema'' \<notin> set (map fst obj) \<and>
         ''credentials_required'' \<notin> set (map fst obj))) \<and>
   (\<forall>row. find (\<lambda>r. node_type r = normalized t) db = Some row \<longrightarrow>
      (\<exists>obj. fst (getNodeInfo rt db t) = Some obj \<and>
         map_of obj ''documentation'' = Some (text_value (documentation row)) \<and>
         map_of obj ''properties_schema'' = Some (text_value (properties_schema row)) \<and>
         map_of obj ''credentials_required'' = Some (text_value (credentials_required row))))"
proof -
  have a: "map fst obj = [''node_type'', ''package_name'', ''display_name'', ''description'', ''category'',
                     ''is_ai_tool'', ''is_trigger'', ''is_webhook''] \<and>
      ''documentation'' \<notin> set (map fst obj) \<and>
      ''properties_schema'' \<notin> set (map fst obj) \<and>
      ''credentials_required'' \<notin> set (map fst obj)"
    if res: "fst (searchNodes rt limits db keyword limit) = Inr objs" and mem: "obj \<in> set objs"
    for objs obj
  proof -
    obtain r where "obj = select_minimal r"
      using search_result_shape [OF res mem] by blast
    then show ?thesis by (simp add: select_minimal_keys)
  qed
  have b: "\<exists>obj. fst (getNodeInfo rt db t) = Some obj \<and>
         map_of obj ''documentation'' = Some (text_value (documentation row)) \<and>
         map_of obj ''properties_schema'' = Some (text_value (properties_schema row)) \<and>
         map_of obj ''credentials_required'' = Some (text_value (credentials_required row))"
    if f: "find (\<lambda>r. node_type r = normalized t) db = Some row" for row
  proof -
    obtain o1 where o1: "fst (getNodeInfo rt db t) = Some o1"
      and d: "map_of o1 ''documentation'' = map_of (select_all row) ''documentation''"
      using getNodeInfo_columns [OF f, of "''documentation''" rt] by (auto simp add: select_all_keys)
    obtain o2 where o2: "fst (getNodeInfo rt db t) = Some o2"
      and p: "map_of o2 ''properties_schema'' = map_of (select_all row) ''properties_schema''"
      using getNodeInfo_columns [OF f, of "''properties_schema''" rt] by (auto simp add: select_all_keys)
    obtain o3 where o3: "fst (getNodeInfo rt db t) = Some o3"
      and c: "map_of o3 ''credentials_required'' = map_of (select_all row) ''credentials_required''"
      using getNodeInfo_columns [OF f, of "''credentials_required''" rt] by (auto simp add: select_all_keys)
    have e: "o2 = o1" "o3 = o1" using o1 o2 o3 by simp_all
    show ?thesis
      using o1 d p c unfolding e by (simp add: select_all_def)
  qed
  from a b show ?thesis by blast
qed

theorem search_projection_and_full_lookup_witness:
  "fst (searchNodes demo_runtime demo_limits [slack_row] ''slack'' (Number 10)) =
     Inr [[(''node_type'', JStr ''nodes-base.slack''), (''package_name'', JStr ''n8n-nodes-base''),
       (''display_name'', JStr ''Slack''), (''description'', JStr []), (''category'', JStr ''output''),
       (''is_ai_tool'', JNum 0), (''is_trigger'', JNum 0), (''is_webhook'', JNum 0)]] \<and>
   ''documentation'' \<notin> set (map fst (select_minimal slack_row)) \<and>
   ''properties_schema'' \<notin> set (map fst (select_minimal slack_row)) \<and>
   ''credentials_required'' \<notin> set (map fst (select_minimal slack_row)) \<and>
   (\<exists>obj. fst (getNodeInfo demo_runtime [slack_row] ''n8n-nodes-base.slack'') = Some obj \<and>
      map_of obj ''documentation'' = Some (JStr ''# Slack'') \<and>
      map_of obj ''properties_schema'' = Some (JStr ''[2.6,2,1]'') \<and>
      map_of obj ''credentials_required'' = Some (JStr ''null''))"
proof -
  have lv: "limit_value (Number 10) = Some 10"
    by code_simp
  have r: "search_rows [slack_row] ''slack'' 10 = [select_minimal slack_row]"
    by code_simp
  have s: "fst (searchNodes demo_runtime demo_limits [slack_row] ''slack'' (Number 10)) =
     Inr [select_minimal slack_row]"
    using demo_search [OF _ lv, of "''slack''" "[slack_row]"] r by simp
  have m: "select_minimal slack_row =
     [(''node_type'', JStr ''nodes-base.slack''), (''package_name'', JStr ''n8n-nodes-base''),
       (''display_name'', JStr ''Slack''), (''description'', JStr []), (''category'', JStr ''output''),
       (''is_ai_tool'', JNum 0), (''is_trigger'', JNum 0), (''is_webhook'', JNum 0)]"
    by code_simp
  have f: "find (\<lambda>r. node_type r = normalized ''n8n-nodes-base.slack'') [slack_row] = Some slack_row"
    by (simp add: normalized_def row_simps)
  note inst = search_projection_and_full_lookup [of demo_runtime demo_limits "[slack_row]"
      "''slack''" "Number 10" "''n8n-nodes-base.slack''"]
  have one: "''documentation'' \<notin> set (map fst (select_minimal slack_row)) \<and>
      ''properties_schema'' \<notin> set (map fst (select_minimal slack_row)) \<and>
      ''credentials_required'' \<notin> set (map fst (select_minimal slack_row))"
    using inst [THEN conjunct1, rule_format, OF s, of "select_minimal slack_row"] by simp
  have two: "\<exists>obj. fst (getNodeInfo demo_runtime [slack_row] ''n8n-nodes-base.slack'') = Some obj \<and>
      map_of obj ''documentation'' = Some (JStr ''# Slack'') \<and>
      map_of obj ''properties_schema'' = Some (JStr ''[2.6,2,1]'') \<and>
      map_of obj ''credentials_required'' = Some (JStr ''null'')"
    using inst [THEN conjunct2, rule_format, OF f]
    by (simp add: row_simps text_value_def)
  from s [unfolded m] one two show ?thesis by blast
qed

lemma derived_unparseable: "unparseable rt p \<Longrightarrow> derived rt p = None"
  by (auto simp add: unparseable_def derived_def split: option.splits)

text \<open>
  C8, as the code has it. When \<open>getNodeInfo\<close> finds the row it returns an object and
  never throws. The object holds every stored column unchanged. For the schema, the
  operations and the credentials payload: a payload that is not empty and is not JSON
  logs one error and leaves out the derived field (\<open>properties\<close>,
  \<open>operations_list\<close>, \<open>credentials\<close>), and only that one; an empty payload is
  skipped without a log line. For the version payload nothing is logged and nothing is
  left out: a version text that is not JSON gives \<open>versions = [parseFloat(version)]\<close>
  and \<open>latest_version = parseFloat(version)\<close>.
\<close>

theorem lookup_fails_soft:
  assumes "find (\<lambda>r. node_type r = normalized t) db = Some row"
  shows "\<exists>obj. getNodeInfo rt db t =
           (Some obj,
            (if unparseable rt (properties_schema row)
             then [LogError (''Failed to parse properties_schema for '' @ t)] else []) @
            (if unparseable rt (operations row)
             then [LogError (''Failed to parse operations for '' @ t)] else []) @
            (if unparseable rt (credentials_required row)
             then [LogError (''Failed to parse credentials for '' @ t)] else [])) \<and>
         (\<forall>k\<in>set (map fst (select_all row)). map_of obj k = map_of (select_all row) k) \<and>
         map_of obj ''properties'' = derived rt (properties_schema row) \<and>
         map_of obj ''operations_list'' = derived rt (operations row) \<and>
         map_of obj ''credentials'' = derived rt (credentials_required row) \<and>
         map_of obj ''versions'' = derived_versions rt (version row) \<and>
         map_of obj ''latest_version'' = derived_latest rt (version row) \<and>
         (unparseable rt (properties_schema row) \<longrightarrow> map_of obj ''properties'' = None) \<and>
         (unparseable rt (operations row) \<longrightarrow> map_of obj ''operations_list'' = None) \<and>
         (unparseable rt (credentials_required row) \<longrightarrow> map_of obj ''credentials'' = None) \<and>
         (\<forall>s. version row = Some s \<and> unparseable rt (version row) \<longrightarrow>
              map_of obj ''versions'' = Some (JArr [parseFloat rt s]) \<and>
              map_of obj ''latest_version'' = Some (parseFloat rt s))"
proof -
  define st1 where "st1 = parse_field rt (properties_schema row) ''properties''
                          (''Failed to parse properties_schema for '' @ t) (select_all row, [])"
  define st2 where "st2 = parse_field rt (operations row) ''operations_list''
                          (''Failed to parse operations for '' @ t) st1"
  define st3 where "st3 = parse_field rt (credentials_required row) ''credentials''
                          (''Failed to parse credentials for '' @ t) st2"
  define obj where "obj = parse_version rt (version row) (fst st3)"
  have res: "getNodeInfo rt db t = (Some obj, snd st3)"
    using assms by (simp add: getNodeInfo_def normalized_def Let_def st1_def st2_def st3_def obj_def)
  have lg: "snd st3 =
            (if unparseable rt (properties_schema row)
             then [LogError (''Failed to parse properties_schema for '' @ t)] else []) @
            (if unparseable rt (operations row)
             then [LogError (''Failed to parse operations for '' @ t)] else []) @
            (if unparseable rt (credentials_required row)
             then [LogError (''Failed to parse credentials for '' @ t)] else [])"
    by (simp add: st3_def st2_def st1_def parse_field_log)
  have cols: "map_of obj k = map_of (select_all row) k" if "k \<in> set (map fst (select_all row))" for k
  proof -
    have n: "k \<noteq> ''properties'' \<and> k \<noteq> ''operations_list'' \<and> k \<noteq> ''credentials'' \<and>
         k \<noteq> ''versions'' \<and> k \<noteq> ''latest_version''"
      using that by (rule stored_key_not_derived)
    then show ?thesis
      by (simp add: obj_def st3_def st2_def st1_def parse_version_other parse_field_other)
  qed
  have p: "map_of obj ''properties'' = derived rt (properties_schema row)"
    by (simp add: obj_def st3_def st2_def st1_def parse_version_other parse_field_other
        parse_field_target select_all_no_derived split: option.splits)
  have o: "map_of obj ''operations_list'' = derived rt (operations row)"
    by (simp add: obj_def st3_def st2_def st1_def parse_version_other parse_field_other
        parse_field_target select_all_no_derived split: option.splits)
  have c: "map_of obj ''credentials'' = derived rt (credentials_required row)"
    by (simp add: obj_def st3_def st2_def st1_def parse_version_other parse_field_other
        parse_field_target select_all_no_derived split: option.splits)
  have v: "map_of obj ''versions'' = derived_versions rt (version row)"
    by (simp add: obj_def st3_def st2_def st1_def parse_version_versions parse_field_other
        select_all_no_derived split: option.splits)
  have l: "map_of obj ''latest_version'' = derived_latest rt (version row)"
    by (simp add: obj_def st3_def st2_def st1_def parse_version_latest parse_field_other
        select_all_no_derived split: option.splits)
  have r2: "getNodeInfo rt db t =
           (Some obj,
            (if unparseable rt (properties_schema row)
             then [LogError (''Failed to parse properties_schema for '' @ t)] else []) @
            (if unparseable rt (operations row)
             then [LogError (''Failed to parse operations for '' @ t)] else []) @
            (if unparseable rt (credentials_required row)
             then [LogError (''Failed to parse credentials for '' @ t)] else []))"
    using res lg by simp
  have up: "unparseable rt (properties_schema row) \<longrightarrow> map_of obj ''properties'' = None"
    unfolding p by (rule impI) (rule derived_unparseable)
  have uo: "unparseable rt (operations row) \<longrightarrow> map_of obj ''operations_list'' = None"
    unfolding o by (rule impI) (rule derived_unparseable)
  have uc: "unparseable rt (credentials_required row) \<longrightarrow> map_of obj ''credentials'' = None"
    unfolding c by (rule impI) (rule derived_unparseable)
  have uv: "\<forall>s. version row = Some s \<and> unparseable rt (version row) \<longrightarrow>
              map_of obj ''versions'' = Some (JArr [parseFloat rt s]) \<and>
              map_of obj ''latest_version'' = Some (parseFloat rt s)"
    unfolding v l
    by (auto simp add: unparseable_def derived_versions_def derived_latest_def stored_versions_def)
  have all: "(\<forall>k\<in>set (map fst (select_all row)). map_of obj k = map_of (select_all row) k)"
    using cols by blast
  show ?thesis
    apply (rule exI [of _ obj])
    apply (intro conjI)
              apply (rule r2)
             apply (rule all)
            apply (rule p)
           apply (rule o)
          apply (rule c)
         apply (rule v)
        apply (rule l)
       apply (rule up)
      apply (rule uo)
     apply (rule uc)
    apply (rule uv)
    done
qed




theorem lookup_fails_soft_witness:
  "\<exists>obj. getNodeInfo demo_runtime [broken_row] ''nodes-base.http'' =
           (Some obj, [LogError ''Failed to parse properties_schema for nodes-base.http'']) \<and>
         map_of obj ''properties'' = None \<and>
         map_of obj ''operations_list'' = Some (JArr [JNum (13 / 5), JNum 2, JNum 1]) \<and>
         map_of obj ''documentation'' = Some (JStr ''# HTTP'') \<and>
         map_of obj ''versions'' = Some (JArr [JNum 1]) \<and>
         map_of obj ''latest_version'' = Some (JNum 1)"
proof -
  have f: "find (\<lambda>r. node_type r = normalized ''nodes-base.http'') [broken_row] = Some broken_row"
    by (simp add: normalized_def row_simps)
  have u: "unparseable demo_runtime (properties_schema broken_row)"
          "\<not> unparseable demo_runtime (operations broken_row)"
          "\<not> unparseable demo_runtime (credentials_required broken_row)"
    by (simp_all add: unparseable_def demo_runtime_def row_simps)
  have d: "derived demo_runtime (operations broken_row) = Some (JArr [JNum (13 / 5), JNum 2, JNum 1])"
          "derived_versions demo_runtime (version broken_row) = Some (JArr [JNum 1])"
          "derived_latest demo_runtime (version broken_row) = Some (JNum 1)"
    by (simp_all add: derived_def derived_versions_def derived_latest_def stored_versions_def
        demo_runtime_def row_simps)
  have k: "''documentation'' \<in> set (map fst (select_all broken_row))"
          "map_of (select_all broken_row) ''documentation'' = Some (JStr ''# HTTP'')"
    by (simp_all add: select_all_def row_simps text_value_def)
  obtain obj where r: "getNodeInfo demo_runtime [broken_row] ''nodes-base.http'' =
           (Some obj, [LogError ''Failed to parse properties_schema for nodes-base.http''])"
    and c: "\<forall>k\<in>set (map fst (select_all broken_row)). map_of obj k = map_of (select_all broken_row) k"
    and p: "map_of obj ''properties'' = None"
    and o: "map_of obj ''operations_list'' = derived demo_runtime (operations broken_row)"
    and v: "map_of obj ''versions'' = derived_versions demo_runtime (version broken_row)"
    and l: "map_of obj ''latest_version'' = derived_latest demo_runtime (version broken_row)"
    using lookup_fails_soft [OF f, of demo_runtime] u by auto
  have doc: "map_of obj ''documentation'' = Some (JStr ''# HTTP'')"
    using c k by metis
  show ?thesis
    using r p o v l doc unfolding d by blast
qed

text \<open>
  The row \<open>odd_row\<close> stores an empty schema payload and the version text \<open>abc\<close>;
  neither is JSON. The lookup logs nothing, and it does not leave out the fields derived
  from the version.
\<close>

theorem lookup_fails_soft_counterexample:
  "properties_schema odd_row = Some [] \<and> JSON_parse demo_runtime [] = None \<and>
   version odd_row = Some ''abc'' \<and> JSON_parse demo_runtime ''abc'' = None \<and>
   (\<exists>obj. getNodeInfo demo_runtime [odd_row] ''nodes-base.odd'' = (Some obj, []) \<and>
      map_of obj ''versions'' = Some (JArr [JNaN]) \<and>
      map_of obj ''latest_version'' = Some JNaN)"
  by (simp add: getNodeInfo_def parse_field_def parse_version_def demo_runtime_def
      row_simps select_all_def text_value_def int_value_def Let_def)

text \<open>
  C10. \<open>getAINodes\<close> returns exactly the rows whose \<open>is_ai_tool\<close> is 1 or whose
  category is the text \<open>AI\<close>, each as often as the table holds it, in the order of
  their display names; a row of category \<open>AI\<close> is returned also when its flag is 0.
\<close>

theorem ai_nodes_listing:
  "set (getAINodes db) = {r \<in> set db. is_ai_tool r = 1 \<or> category r = ''AI''} \<and>
   mset (getAINodes db) = filter_mset (\<lambda>r. is_ai_tool r = 1 \<or> category r = ''AI'') (mset db) \<and>
   sorted (map display_name (getAINodes db)) \<and>
   (\<forall>r\<in>set db. category r = ''AI'' \<and> is_ai_tool r = 0 \<longrightarrow> r \<in> set (getAINodes db))"
  by (auto simp add: getAINodes_def)

theorem ai_nodes_listing_witness:
  "getAINodes [demo_row ''nodes-langchain.zeta'' ''Zeta'' ''transform'' 1,
               demo_row ''nodes-base.set'' ''Set'' ''input'' 0,
               demo_row ''nodes-langchain.agent'' ''Agent'' ''AI'' 0] =
     [demo_row ''nodes-langchain.agent'' ''Agent'' ''AI'' 0,
      demo_row ''nodes-langchain.zeta'' ''Zeta'' ''transform'' 1]"
proof -
  let ?db = "[demo_row ''nodes-langchain.zeta'' ''Zeta'' ''transform'' 1,
               demo_row ''nodes-base.set'' ''Set'' ''input'' 0,
               demo_row ''nodes-langchain.agent'' ''Agent'' ''AI'' 0]"
  have m: "demo_row ''nodes-langchain.agent'' ''Agent'' ''AI'' 0 \<in> set (getAINodes ?db)"
    using ai_nodes_listing [of ?db] by (simp add: demo_row_def)
  show ?thesis
    using m by (simp add: getAINodes_def demo_row_def)
qed

section \<open>Keyword search\<close>

lemma like_percent_split:
  "like_match (CHR ''%'' # ps) t \<longleftrightarrow> (\<exists>t0 t1. t = t0 @ t1 \<and> like_match ps t1)"
proof (induction t)
  case Nil
  then show ?case by simp
next
  case (Cons c cs)
  have "like_match (CHR ''%'' # ps) (c # cs) \<longleftrightarrow>
          like_match ps (c # cs) \<or> (\<exists>t0 t1. cs = t0 @ t1 \<and> like_match ps t1)"
    using Cons.IH by simp
  also have "\<dots> \<longleftrightarrow> (\<exists>t0 t1. c # cs = t0 @ t1 \<and> like_match ps t1)"
  proof
    assume "like_match ps (c # cs) \<or> (\<exists>t0 t1. cs = t0 @ t1 \<and> like_match ps t1)"
    then show "\<exists>t0 t1. c # cs = t0 @ t1 \<and> like_match ps t1"
    proof
      assume "like_match ps (c # cs)"
      then have "c # cs = [] @ (c # cs) \<and> like_match ps (c # cs)" by simp
      then show ?thesis by blast
    next
      assume "\<exists>t0 t1. cs = t0 @ t1 \<and> like_match ps t1"
      then obtain t0 t1 where "cs = t0 @ t1" "like_match ps t1" by blast
      then have "c # cs = (c # t0) @ t1 \<and> like_match ps t1" by simp
      then show ?thesis by blast
    qed
  next
    assume "\<exists>t0 t1. c # cs = t0 @ t1 \<and> like_match ps t1"
    then obtain t0 t1 where e: "c # cs = t0 @ t1" and m: "like_match ps t1" by blast
    show "like_match ps (c # cs) \<or> (\<exists>t0 t1. cs = t0 @ t1 \<and> like_match ps t1)"
    proof (cases t0)
      case Nil
      then show ?thesis using e m by simp
    next
      case (Cons a t0')
      then have "cs = t0' @ t1" using e by simp
      then show ?thesis using m by blast
    qed
  qed
  finally show ?case .
qed

lemma like_only_percent: "like_match ''%'' t"
  by (induction t) simp_all

lemma like_literal_complete:
  "map lower t1 = map lower k \<Longrightarrow> like_match ps t2 \<Longrightarrow> like_match (k @ ps) (t1 @ t2)"
proof (induction k arbitrary: t1)
  case Nil
  then show ?case by simp
next
  case (Cons p k)
  then obtain c t1' where t1: "t1 = c # t1'" and pc: "lower c = lower p"
    and rest: "map lower t1' = map lower k"
    by (cases t1) auto
  have ih: "like_match (k @ ps) (t1' @ t2)"
    using Cons.IH [OF rest Cons.prems(2)] .
  show ?case
  proof (cases "p = CHR ''%''")
    case True
    have "like_match (CHR ''%'' # k @ ps) (t1' @ t2)"
      using ih like_percent_split [of "k @ ps" "t1' @ t2"] by (metis append_Nil)
    then show ?thesis using True t1 by simp
  next
    case False
    then show ?thesis using t1 pc ih by simp
  qed
qed

lemma like_literal_sound:
  "wildcard_free k \<Longrightarrow> like_match (k @ ps) t \<Longrightarrow>
   \<exists>t1 t2. t = t1 @ t2 \<and> map lower t1 = map lower k \<and> like_match ps t2"
proof (induction k arbitrary: t)
  case Nil
  then show ?case by simp
next
  case (Cons p k)
  have np: "p \<noteq> CHR ''%''" and nu: "p \<noteq> CHR ''_''" and wk: "wildcard_free k"
    using Cons.prems(1) by (auto simp add: wildcard_free_def)
  obtain c cs where t: "t = c # cs"
    using Cons.prems(2) np by (cases t) auto
  have pc: "lower p = lower c" and m: "like_match (k @ ps) cs"
    using Cons.prems(2) np nu unfolding t by simp_all
  obtain t1 t2 where "cs = t1 @ t2" "map lower t1 = map lower k" "like_match ps t2"
    using Cons.IH [OF wk m] by blast
  then have "t = (c # t1) @ t2 \<and> map lower (c # t1) = map lower (p # k) \<and> like_match ps t2"
    using t pc by simp
  then show ?case by blast
qed

lemma contains_ci_split:
  "contains_ci k t \<longleftrightarrow> (\<exists>t0 t1 t2. t = t0 @ t1 @ t2 \<and> map lower t1 = map lower k)"
proof
  assume "contains_ci k t"
  then obtain ps ss where "map lower t = ps @ map lower k @ ss"
    by (auto simp add: contains_ci_def sublist_def)
  then obtain t0 r where t: "t = t0 @ r" and r: "map lower r = map lower k @ ss"
    by (metis map_eq_append_conv)
  obtain t1 t2 where "r = t1 @ t2" and "map lower t1 = map lower k"
    using r by (metis map_eq_append_conv)
  then show "\<exists>t0 t1 t2. t = t0 @ t1 @ t2 \<and> map lower t1 = map lower k"
    using t by blast
next
  assume "\<exists>t0 t1 t2. t = t0 @ t1 @ t2 \<and> map lower t1 = map lower k"
  then obtain t0 t1 t2 where "t = t0 @ t1 @ t2" and "map lower t1 = map lower k" by blast
  then have "map lower t = map lower t0 @ map lower k @ map lower t2" by simp
  then show "contains_ci k t"
    unfolding contains_ci_def sublist_def by blast
qed

lemma contains_imp_like:
  assumes "contains_ci k t"
  shows "like_match (CHR ''%'' # k @ ''%'') t"
proof -
  obtain t0 t1 t2 where t: "t = t0 @ t1 @ t2" and e: "map lower t1 = map lower k"
    using assms contains_ci_split by blast
  have "like_match (k @ ''%'') (t1 @ t2)"
    using e like_only_percent by (rule like_literal_complete)
  then show ?thesis
    using t like_percent_split [of "k @ ''%''" t] by auto
qed

lemma like_imp_contains:
  assumes "wildcard_free k" and "like_match (CHR ''%'' # k @ ''%'') t"
  shows "contains_ci k t"
proof -
  obtain t0 r where t: "t = t0 @ r" and m: "like_match (k @ ''%'') r"
    using assms(2) like_percent_split [of "k @ ''%''" t] by auto
  obtain t1 t2 where "r = t1 @ t2" and "map lower t1 = map lower k"
    using like_literal_sound [OF assms(1) m] by blast
  then show ?thesis
    using t contains_ci_split by blast
qed

lemma like_imp_ends:
  assumes "wildcard_free k" and "like_match (CHR ''%'' # k) t"
  shows "ends_ci k t"
proof -
  obtain t0 r where t: "t = t0 @ r" and m: "like_match (k @ []) r"
    using assms(2) like_percent_split [of k t] by auto
  obtain t1 t2 where r: "r = t1 @ t2" and e: "map lower t1 = map lower k" and n: "like_match [] t2"
    using like_literal_sound [OF assms(1) m] by blast
  have "t2 = []" using n by (cases t2) simp_all
  then have "map lower t = map lower t0 @ map lower k" using t r e by simp
  then show ?thesis unfolding ends_ci_def suffix_def by blast
qed

lemma ends_imp_like:
  assumes "ends_ci k t"
  shows "like_match (CHR ''%'' # k) t"
proof -
  obtain zs where "map lower t = zs @ map lower k"
    using assms unfolding ends_ci_def suffix_def by blast
  then obtain t0 t1 where t: "t = t0 @ t1" and e: "map lower t1 = map lower k"
    by (metis map_eq_append_conv)
  have "like_match (k @ []) (t1 @ [])"
    using e by (rule like_literal_complete) simp
  then have "like_match k t1" by simp
  then show ?thesis
    using t like_percent_split [of k t] by blast
qed

lemma c_string_nul_free:
  "nul_free k \<Longrightarrow> c_string (CHR ''%'' # k @ ''%'') = CHR ''%'' # k @ ''%''"
  by (auto simp add: c_string_def nul_free_def)

lemma c_string_cut:
  "nul_free k1 \<Longrightarrow> c_string (CHR ''%'' # k1 @ CHR 0x00 # k2 @ ''%'') = CHR ''%'' # k1"
  by (auto simp add: c_string_def nul_free_def takeWhile_tail)

lemma contains_imp_where:
  "nul_free k \<Longrightarrow> field_contains k r \<Longrightarrow> search_where (''%'' @ k @ ''%'') r"
  using contains_imp_like [of k]
  by (auto simp add: field_contains_def search_where_def like_null_def sql_like_def
      c_string_nul_free split: option.splits)

lemma where_iff_contains:
  "nul_free k \<Longrightarrow> wildcard_free k \<Longrightarrow>
   search_where (''%'' @ k @ ''%'') r \<longleftrightarrow> field_contains k r"
  using contains_imp_like [of k] like_imp_contains [of k]
  by (auto simp add: field_contains_def search_where_def like_null_def sql_like_def
      c_string_nul_free split: option.splits)

lemma where_iff_ends:
  "nul_free k1 \<Longrightarrow> wildcard_free k1 \<Longrightarrow>
   search_where (''%'' @ (k1 @ CHR 0x00 # k2) @ ''%'') r \<longleftrightarrow> field_ends_with k1 r"
  using ends_imp_like [of k1] like_imp_ends [of k1]
  by (auto simp add: field_ends_with_def search_where_def like_null_def sql_like_def
      c_string_cut split: option.splits)

lemma sql_limit_length: "0 \<le> n \<Longrightarrow> int (length (sql_limit n xs)) \<le> n"
  by (simp add: sql_limit_def)

lemma searchNodes_fails:
  "(\<exists>e. fst (searchNodes rt limits db keyword limit) = Inl e) \<longleftrightarrow>
     max_string_length limits < length (''%'' @ keyword @ ''%'') \<or>
     sqlite_max_length limits < utf8_length (''%'' @ keyword @ ''%'') \<or>
     limit_value limit = None \<or>
     (\<exists>n. limit_value limit = Some n \<and>
        (n \<noteq> 0 \<and> db \<noteq> [] \<and> like_pattern_length limits < utf8_length (''%'' @ keyword @ ''%'') \<or>
         max_string_length limits <
           length (found_message rt (length (search_rows db keyword n)) keyword)))"
proof (cases "limit_value limit")
  case None
  then show ?thesis
    by (simp add: searchNodes_def run_search_query_def Let_def)
next
  case (Some n)
  then show ?thesis
    by (simp add: searchNodes_def run_search_query_def Let_def search_rows_def)
qed

lemma searchNodes_result:
  assumes "fst (searchNodes rt limits db keyword limit) = Inr objs"
  shows "\<exists>n. limit_value limit = Some n \<and> objs = search_rows db keyword n"
proof (cases "limit_value limit")
  case None
  then show ?thesis
    using assms by (simp add: searchNodes_def run_search_query_def Let_def split: if_splits)
next
  case (Some n)
  then show ?thesis
    using assms
    by (simp add: searchNodes_def run_search_query_def Let_def search_rows_def split: if_splits)
qed

lemma demo_search_mismatch:
  assumes "length k \<le> 100" and "limit_value l = None"
  shows "fst (searchNodes demo_runtime demo_limits db k l) = Inl SqliteMismatch"
  unfolding searchNodes_def run_search_query_def Let_def
  using demo_pattern_fits [OF assms(1)]
  by (simp add: assms(2))

lemma demo_search_long:
  "fst (searchNodes demo_runtime demo_limits [slack_row] (replicate 49999 (CHR ''a'')) (Number 10)) =
     Inl SqliteLikeTooComplex"
proof -
  have lv: "limit_value (Number 10) = Some 10"
    by code_simp
  have u: "utf8_length (''%'' @ replicate 49999 (CHR ''a'') @ ''%'') = 50001"
    unfolding utf8_length_append by (simp add: utf8_length_def)
  show ?thesis
    unfolding searchNodes_def run_search_query_def Let_def u lv
    by (simp add: demo_limits_def)
qed

text \<open>
  C4, as the code has it. The search pattern is \<open>%keyword%\<close> under \<open>LIKE\<close>, with the
  limit bound to \<open>LIMIT ?\<close>. The call throws exactly when the pattern is longer than a
  string of the engine or than a text that SQLite binds, when the limit is not a whole
  number that SQLite takes as a 64-bit integer, when the pattern is longer than \<open>LIKE\<close>
  accepts and a row is examined (the limit is not 0 and the table is not empty), or when
  the text of the log line is longer than a string of the engine. When it returns, with
  \<open>n\<close> the limit, it returns the selected columns of the rows that match, in table
  order, cut to the first \<open>n\<close> when \<open>n\<close> is not negative.

  Of the rows. For a keyword without a NUL character, every row one of whose four searched
  columns contains the keyword, upper and lower case ASCII letters being equal, matches,
  and for a keyword that also has no \<open>%\<close> and no \<open>_\<close> these are the only rows that
  match. A keyword is read up to its first NUL character: when the part before it has no
  \<open>%\<close> and no \<open>_\<close>, the rows that match are those with a searched column that ends
  with that part. A limit that is not negative bounds the number of results; a negative
  limit is no bound. When no row matches, the result is the empty list.
\<close>

theorem search_by_keyword:
  "((\<exists>e. fst (searchNodes rt limits db keyword limit) = Inl e) \<longleftrightarrow>
      max_string_length limits < length (''%'' @ keyword @ ''%'') \<or>
      sqlite_max_length limits < utf8_length (''%'' @ keyword @ ''%'') \<or>
      limit_value limit = None \<or>
      (\<exists>n. limit_value limit = Some n \<and>
         (n \<noteq> 0 \<and> db \<noteq> [] \<and>
            like_pattern_length limits < utf8_length (''%'' @ keyword @ ''%'') \<or>
          max_string_length limits <
            length (found_message rt (length (search_rows db keyword n)) keyword)))) \<and>
   (\<forall>objs. fst (searchNodes rt limits db keyword limit) = Inr objs \<longrightarrow>
      (\<exists>n. limit_value limit = Some n \<and> objs = search_rows db keyword n)) \<and>
   (nul_free keyword \<longrightarrow>
      (\<forall>r\<in>set db. field_contains keyword r \<longrightarrow> search_where (''%'' @ keyword @ ''%'') r)) \<and>
   (nul_free keyword \<and> wildcard_free keyword \<longrightarrow>
      search_rows db keyword n =
        map select_minimal (sql_limit n (filter (field_contains keyword) db))) \<and>
   (nul_free k1 \<and> wildcard_free k1 \<longrightarrow>
      search_rows db (k1 @ CHR 0x00 # k2) n =
        map select_minimal (sql_limit n (filter (field_ends_with k1) db))) \<and>
   (0 \<le> n \<longrightarrow> int (length (search_rows db keyword n)) \<le> n) \<and>
   (n < 0 \<longrightarrow>
      search_rows db keyword n =
        map select_minimal (filter (search_where (''%'' @ keyword @ ''%'')) db)) \<and>
   ((\<forall>r\<in>set db. \<not> search_where (''%'' @ keyword @ ''%'') r) \<longrightarrow>
      search_rows db keyword n = [])"
proof -
  note a = searchNodes_fails [of rt limits db keyword limit]
  have b: "\<forall>objs. fst (searchNodes rt limits db keyword limit) = Inr objs \<longrightarrow>
      (\<exists>n. limit_value limit = Some n \<and> objs = search_rows db keyword n)"
    using searchNodes_result by blast
  have c: "nul_free keyword \<longrightarrow>
      (\<forall>r\<in>set db. field_contains keyword r \<longrightarrow> search_where (''%'' @ keyword @ ''%'') r)"
    using contains_imp_where by blast
  have d: "nul_free keyword \<and> wildcard_free keyword \<longrightarrow>
      search_rows db keyword n =
        map select_minimal (sql_limit n (filter (field_contains keyword) db))"
  proof
    assume w: "nul_free keyword \<and> wildcard_free keyword"
    have "filter (search_where (''%'' @ keyword @ ''%'')) db = filter (field_contains keyword) db"
      using where_iff_contains w by (metis (no_types, lifting) filter_cong)
    then show "search_rows db keyword n =
        map select_minimal (sql_limit n (filter (field_contains keyword) db))"
      by (simp add: search_rows_def)
  qed
  have e: "nul_free k1 \<and> wildcard_free k1 \<longrightarrow>
      search_rows db (k1 @ CHR 0x00 # k2) n =
        map select_minimal (sql_limit n (filter (field_ends_with k1) db))"
  proof
    assume w: "nul_free k1 \<and> wildcard_free k1"
    have "filter (search_where (''%'' @ (k1 @ CHR 0x00 # k2) @ ''%'')) db =
          filter (field_ends_with k1) db"
      using where_iff_ends w by (metis (no_types, lifting) filter_cong)
    then show "search_rows db (k1 @ CHR 0x00 # k2) n =
        map select_minimal (sql_limit n (filter (field_ends_with k1) db))"
      by (simp only: search_rows_def)
  qed
  have f: "0 \<le> n \<longrightarrow> int (length (search_rows db keyword n)) \<le> n"
    by (simp add: search_rows_def sql_limit_length)
  have g: "n < 0 \<longrightarrow>
      search_rows db keyword n =
        map select_minimal (filter (search_where (''%'' @ keyword @ ''%'')) db)"
    by (simp add: search_rows_def sql_limit_def)
  have h: "(\<forall>r\<in>set db. \<not> search_where (''%'' @ keyword @ ''%'') r) \<longrightarrow>
      search_rows db keyword n = []"
  proof
    assume "\<forall>r\<in>set db. \<not> search_where (''%'' @ keyword @ ''%'') r"
    then have "filter (search_where (''%'' @ keyword @ ''%'')) db = []"
      by (simp add: filter_empty_conv)
    then show "search_rows db keyword n = []"
      by (simp add: search_rows_def sql_limit_def)
  qed
  from a b c d e f g h show ?thesis by blast
qed

theorem search_by_keyword_witness:
  "fst (searchNodes demo_runtime demo_limits [slack_row, broken_row] ''SLACK'' (Number 10)) =
     Inr [select_minimal slack_row] \<and>
   fst (searchNodes demo_runtime demo_limits [slack_row, broken_row] ''zzz-nonexistent''
     (Number 10)) = Inr [] \<and>
   search_rows [slack_row, broken_row] (''.SLACK'' @ CHR 0x00 # ''zzz'') 10 =
     [select_minimal slack_row] \<and>
   length (search_rows [slack_row, broken_row] ''nodes'' 1) = 1"
proof -
  have lv: "limit_value (Number 10) = Some 10"
    by code_simp
  have w: "nul_free ''SLACK'' \<and> wildcard_free ''SLACK''"
    "nul_free ''zzz-nonexistent'' \<and> wildcard_free ''zzz-nonexistent''"
    "nul_free ''.SLACK'' \<and> wildcard_free ''.SLACK''"
    "nul_free ''nodes'' \<and> wildcard_free ''nodes''"
    by (simp_all add: wildcard_free_def nul_free_def)
  have f1: "filter (field_contains ''SLACK'') [slack_row, broken_row] = [slack_row]"
    by code_simp
  have f2: "filter (field_contains ''zzz-nonexistent'') [slack_row, broken_row] = []"
    by code_simp
  have f3: "filter (field_ends_with ''.SLACK'') [slack_row, broken_row] = [slack_row]"
    by code_simp
  have f4: "filter (field_contains ''nodes'') [slack_row, broken_row] = [slack_row, broken_row]"
    by code_simp
  have r1: "search_rows [slack_row, broken_row] ''SLACK'' 10 = [select_minimal slack_row]"
    using search_by_keyword [of demo_runtime demo_limits "[slack_row, broken_row]" "''SLACK''"
        "Number 10" 10 "[]" "[]", THEN conjunct2, THEN conjunct2, THEN conjunct2, THEN conjunct1]
      w(1)
    unfolding f1 by (simp add: sql_limit_def)
  have r2: "search_rows [slack_row, broken_row] ''zzz-nonexistent'' 10 = []"
    using search_by_keyword [of demo_runtime demo_limits "[slack_row, broken_row]"
        "''zzz-nonexistent''" "Number 10" 10 "[]" "[]",
        THEN conjunct2, THEN conjunct2, THEN conjunct2, THEN conjunct1] w(2)
    unfolding f2 by (simp add: sql_limit_def)
  have l1: "length ''SLACK'' \<le> 100" and l2: "length ''zzz-nonexistent'' \<le> 100"
    by simp_all
  have n1: "\<not> (\<exists>e. fst (searchNodes demo_runtime demo_limits [slack_row, broken_row] ''SLACK''
      (Number 10)) = Inl e)"
    unfolding search_by_keyword [of demo_runtime demo_limits "[slack_row, broken_row]" "''SLACK''"
        "Number 10" 10 "[]" "[]", THEN conjunct1] lv
    using demo_pattern_fits [OF l1] demo_message_fits [OF l1]
    by simp
  have n2: "\<not> (\<exists>e. fst (searchNodes demo_runtime demo_limits [slack_row, broken_row]
      ''zzz-nonexistent'' (Number 10)) = Inl e)"
    unfolding search_by_keyword [of demo_runtime demo_limits "[slack_row, broken_row]"
        "''zzz-nonexistent''" "Number 10" 10 "[]" "[]", THEN conjunct1] lv
    using demo_pattern_fits [OF l2] demo_message_fits [OF l2]
    by simp
  obtain o1 where o1: "fst (searchNodes demo_runtime demo_limits [slack_row, broken_row] ''SLACK''
      (Number 10)) = Inr o1"
    using n1
    by (cases "fst (searchNodes demo_runtime demo_limits [slack_row, broken_row] ''SLACK''
      (Number 10))") auto
  obtain o2 where o2: "fst (searchNodes demo_runtime demo_limits [slack_row, broken_row]
      ''zzz-nonexistent'' (Number 10)) = Inr o2"
    using n2
    by (cases "fst (searchNodes demo_runtime demo_limits [slack_row, broken_row]
      ''zzz-nonexistent'' (Number 10))") auto
  have "o1 = search_rows [slack_row, broken_row] ''SLACK'' 10"
    using search_by_keyword [of demo_runtime demo_limits "[slack_row, broken_row]" "''SLACK''"
        "Number 10" 10 "[]" "[]", THEN conjunct2, THEN conjunct1, rule_format, OF o1] lv
    by auto
  then have one: "fst (searchNodes demo_runtime demo_limits [slack_row, broken_row] ''SLACK''
      (Number 10)) = Inr [select_minimal slack_row]"
    using o1 r1 by simp
  have "o2 = search_rows [slack_row, broken_row] ''zzz-nonexistent'' 10"
    using search_by_keyword [of demo_runtime demo_limits "[slack_row, broken_row]"
        "''zzz-nonexistent''" "Number 10" 10 "[]" "[]",
        THEN conjunct2, THEN conjunct1, rule_format, OF o2] lv
    by auto
  then have two: "fst (searchNodes demo_runtime demo_limits [slack_row, broken_row]
      ''zzz-nonexistent'' (Number 10)) = Inr []"
    using o2 r2 by simp
  have three: "search_rows [slack_row, broken_row] (''.SLACK'' @ CHR 0x00 # ''zzz'') 10 =
     [select_minimal slack_row]"
    using search_by_keyword [of demo_runtime demo_limits "[slack_row, broken_row]" "''SLACK''"
        "Number 10" 10 "''.SLACK''" "''zzz''",
        THEN conjunct2, THEN conjunct2, THEN conjunct2, THEN conjunct2, THEN conjunct1] w(3)
    unfolding f3 by (simp add: sql_limit_def)
  have four: "length (search_rows [slack_row, broken_row] ''nodes'' 1) = 1"
    using search_by_keyword [of demo_runtime demo_limits "[slack_row, broken_row]" "''nodes''"
        "Number 1" 1 "[]" "[]", THEN conjunct2, THEN conjunct2, THEN conjunct2, THEN conjunct1]
      w(4)
    unfolding f4 by (simp add: sql_limit_def)
  from one two three four show ?thesis by blast
qed

text \<open>
  The keyword \<open>s_ack\<close> is contained in no column of the row, and the search returns the
  row. With the limit \<open>-1\<close> the search returns two rows. With the limit \<open>10.5\<close>, with
  the limit \<open>2^63\<close> and with a limit that is not a number the search throws, and it throws
  for a keyword of 49999 letters, the table not being empty. The keyword that is one NUL
  character is contained in no column of the row, and the search returns the row.
\<close>

theorem search_by_keyword_counterexample:
  "\<not> field_contains ''s_ack'' slack_row \<and>
   fst (searchNodes demo_runtime demo_limits [slack_row] ''s_ack'' (Number 10)) =
     Inr [select_minimal slack_row] \<and>
   fst (searchNodes demo_runtime demo_limits [slack_row, broken_row] ''nodes'' (Number (- 1))) =
     Inr [select_minimal slack_row, select_minimal broken_row] \<and>
   fst (searchNodes demo_runtime demo_limits [slack_row] ''slack'' (Number (21 / 2))) =
     Inl SqliteMismatch \<and>
   fst (searchNodes demo_runtime demo_limits [slack_row] ''slack'' (Number (2 ^ 63))) =
     Inl SqliteMismatch \<and>
   fst (searchNodes demo_runtime demo_limits [slack_row] ''slack'' NaN) = Inl SqliteMismatch \<and>
   fst (searchNodes demo_runtime demo_limits [slack_row] (replicate 49999 (CHR ''a''))
     (Number 10)) = Inl SqliteLikeTooComplex \<and>
   \<not> field_contains [CHR 0x00] slack_row \<and>
   fst (searchNodes demo_runtime demo_limits [slack_row] [CHR 0x00] (Number 10)) =
     Inr [select_minimal slack_row]"
proof -
  have lv: "limit_value (Number 10) = Some 10" "limit_value (Number (- 1)) = Some (- 1)"
    "limit_value (Number (21 / 2)) = None" "limit_value (Number (2 ^ 63)) = None"
    "limit_value NaN = None"
    by code_simp+
  have a: "\<not> field_contains ''s_ack'' slack_row"
    by code_simp
  have "search_rows [slack_row] ''s_ack'' 10 = [select_minimal slack_row]"
    by code_simp
  then have b: "fst (searchNodes demo_runtime demo_limits [slack_row] ''s_ack'' (Number 10)) =
      Inr [select_minimal slack_row]"
    using demo_search [OF _ lv(1), of "''s_ack''" "[slack_row]"] by simp
  have "search_rows [slack_row, broken_row] ''nodes'' (- 1) =
      [select_minimal slack_row, select_minimal broken_row]"
    by code_simp
  then have c: "fst (searchNodes demo_runtime demo_limits [slack_row, broken_row] ''nodes''
      (Number (- 1))) = Inr [select_minimal slack_row, select_minimal broken_row]"
    using demo_search [OF _ lv(2), of "''nodes''" "[slack_row, broken_row]"] by simp
  have d: "fst (searchNodes demo_runtime demo_limits [slack_row] ''slack'' (Number (21 / 2))) =
      Inl SqliteMismatch"
    using demo_search_mismatch [OF _ lv(3), of "''slack''" "[slack_row]"] by simp
  have e: "fst (searchNodes demo_runtime demo_limits [slack_row] ''slack'' (Number (2 ^ 63))) =
      Inl SqliteMismatch"
    using demo_search_mismatch [OF _ lv(4), of "''slack''" "[slack_row]"] by simp
  have f: "fst (searchNodes demo_runtime demo_limits [slack_row] ''slack'' NaN) =
      Inl SqliteMismatch"
    using demo_search_mismatch [OF _ lv(5), of "''slack''" "[slack_row]"] by simp
  have g: "\<not> field_contains [CHR 0x00] slack_row"
    by code_simp
  have "search_rows [slack_row] [CHR 0x00] 10 = [select_minimal slack_row]"
    by code_simp
  then have h: "fst (searchNodes demo_runtime demo_limits [slack_row] [CHR 0x00] (Number 10)) =
      Inr [select_minimal slack_row]"
    using demo_search [OF _ lv(1), of "[CHR 0x00]" "[slack_row]"] by simp
  from a b c d e f demo_search_long g h show ?thesis by blast
qed

section \<open>The documentation of a node\<close>

lemma join_nonempty: "xs \<noteq> [] \<Longrightarrow> hd xs \<noteq> [] \<Longrightarrow> join sep xs \<noteq> []"
  by (cases "(sep, xs)" rule: join.cases) auto

lemma doc_parts_nonempty: "p \<in> set (doc_parts d) \<Longrightarrow> p \<noteq> []"
  by (auto simp add: doc_parts_def split: if_splits option.splits)

lemma synthesized_nonempty: "doc_parts d \<noteq> [] \<Longrightarrow> join NL (doc_parts d) \<noteq> []"
proof -
  assume ne: "doc_parts d \<noteq> []"
  then have "hd (doc_parts d) \<in> set (doc_parts d)" by simp
  then have "hd (doc_parts d) \<noteq> []" by (rule doc_parts_nonempty)
  with ne show ?thesis by (rule join_nonempty)
qed

lemma filter_no_description:
  "list_all (\<lambda>p. \<not> truthy (p_description p)) ps \<Longrightarrow> filter (\<lambda>p. truthy (p_description p)) ps = []"
  by (induction ps) simp_all

lemma no_content_no_parts: "no_descriptive_content d \<Longrightarrow> doc_parts d = []"
  by (auto simp add: no_descriptive_content_def doc_parts_def property_docs_def filter_no_description
      split: properties_decl.splits)

lemma description_only_parts:
  "s \<noteq> [] \<Longrightarrow> doc_parts (empty_description\<lparr> d_description := Some s \<rparr>) =
     [''# undefined'' @ NL @ NL @ s @ NL]"
  by (simp add: doc_parts_def empty_description_def truthy_def tmpl_def js_or_def property_docs_def)

text \<open>
  C6, as the code has it. An entry of the documentation map for the node type that is not
  the empty text is returned as it is. Without such an entry the documentation is
  synthesized from the description, and a description with no descriptive content gives
  nothing. The result is never the empty text. A description that has only a description
  text gives a heading and that text.
\<close>

theorem documentation_priority:
  "(\<forall>doc. githubDocs nodeType = Some doc \<and> doc \<noteq> [] \<longrightarrow>
       extractDocumentation d nodeType githubDocs = Some doc) \<and>
   (\<not> truthy (githubDocs nodeType) \<longrightarrow>
       extractDocumentation d nodeType githubDocs =
         (if doc_parts d = [] then None else Some (join NL (doc_parts d)))) \<and>
   (\<not> truthy (githubDocs nodeType) \<and> no_descriptive_content d \<longrightarrow>
       extractDocumentation d nodeType githubDocs = None) \<and>
   extractDocumentation d nodeType githubDocs \<noteq> Some [] \<and>
   (\<not> truthy (githubDocs nodeType) \<and> s \<noteq> [] \<longrightarrow>
       extractDocumentation (empty_description\<lparr> d_description := Some s \<rparr>) nodeType githubDocs =
         Some (''# undefined'' @ NL @ NL @ s @ NL))"
proof -
  have a: "\<forall>doc. githubDocs nodeType = Some doc \<and> doc \<noteq> [] \<longrightarrow>
       extractDocumentation d nodeType githubDocs = Some doc"
    by (simp add: extractDocumentation_def truthy_def)
  have b: "\<not> truthy (githubDocs nodeType) \<longrightarrow>
       extractDocumentation d nodeType githubDocs =
         (if doc_parts d = [] then None else Some (join NL (doc_parts d)))"
    by (simp add: extractDocumentation_def)
  have c: "\<not> truthy (githubDocs nodeType) \<and> no_descriptive_content d \<longrightarrow>
       extractDocumentation d nodeType githubDocs = None"
    by (simp add: extractDocumentation_def no_content_no_parts)
  have e: "extractDocumentation d nodeType githubDocs \<noteq> Some []"
    using synthesized_nonempty [of d]
    by (auto simp add: extractDocumentation_def truthy_def split: option.splits if_splits)
  have f: "\<not> truthy (githubDocs nodeType) \<and> s \<noteq> [] \<longrightarrow>
       extractDocumentation (empty_description\<lparr> d_description := Some s \<rparr>) nodeType githubDocs =
         Some (''# undefined'' @ NL @ NL @ s @ NL)"
    by (simp add: extractDocumentation_def description_only_parts)
  from a b c e f show ?thesis by blast
qed

theorem documentation_priority_witness:
  "extractDocumentation (empty_description\<lparr> d_description := Some ''Sends a message'' \<rparr>)
     ''nodes-base.slack'' [''nodes-base.slack'' \<mapsto> ''# Slack README''] = Some ''# Slack README'' \<and>
   extractDocumentation empty_description ''nodes-base.slack'' Map.empty = None \<and>
   extractDocumentation (empty_description\<lparr> d_description := Some ''Sends a message'' \<rparr>)
     ''nodes-base.slack'' Map.empty = Some (''# undefined'' @ NL @ NL @ ''Sends a message'' @ NL)"
proof -
  have n: "no_descriptive_content empty_description"
    by (simp add: no_descriptive_content_def empty_description_def truthy_def)
  have t: "\<not> truthy (Map.empty ''nodes-base.slack'')"
    by (simp add: truthy_def)
  have one: "extractDocumentation (empty_description\<lparr> d_description := Some ''Sends a message'' \<rparr>)
     ''nodes-base.slack'' [''nodes-base.slack'' \<mapsto> ''# Slack README''] = Some ''# Slack README''"
    using documentation_priority [of "[''nodes-base.slack'' \<mapsto> ''# Slack README'']" "''nodes-base.slack''"
        "empty_description\<lparr> d_description := Some ''Sends a message'' \<rparr>" "[]"]
    by simp
  have two: "extractDocumentation empty_description ''nodes-base.slack'' Map.empty = None"
    using documentation_priority [of Map.empty "''nodes-base.slack''" empty_description "[]"] n t
    by blast
  have three: "extractDocumentation (empty_description\<lparr> d_description := Some ''Sends a message'' \<rparr>)
     ''nodes-base.slack'' Map.empty = Some (''# undefined'' @ NL @ NL @ ''Sends a message'' @ NL)"
    using documentation_priority [of Map.empty "''nodes-base.slack''" empty_description "''Sends a message''"] t
    by simp
  from one two three show ?thesis by blast
qed

text \<open>
  The map has an entry for the node type, the empty text; the result is not the entry but
  the synthesized documentation.
\<close>

theorem documentation_priority_counterexample:
  "[''nodes-base.slack'' \<mapsto> []] ''nodes-base.slack'' = Some [] \<and>
   extractDocumentation (empty_description\<lparr> d_description := Some ''Sends a message'' \<rparr>)
     ''nodes-base.slack'' [''nodes-base.slack'' \<mapsto> []] =
     Some (''# undefined'' @ NL @ NL @ ''Sends a message'' @ NL) \<and>
   extractDocumentation (empty_description\<lparr> d_description := Some ''Sends a message'' \<rparr>)
     ''nodes-base.slack'' [''nodes-base.slack'' \<mapsto> []] \<noteq>
     [''nodes-base.slack'' \<mapsto> []] ''nodes-base.slack''"
  by (simp add: extractDocumentation_def doc_parts_def empty_description_def truthy_def tmpl_def
      js_or_def property_docs_def)


section \<open>The package scanner keeps the modules that load\<close>

lemma loaded_of_Nil: "loaded_of sys n p [] = []"
  by (simp add: loaded_of_def map_filter_simps)

lemma loaded_of_Cons:
  "loaded_of sys n p (x # xs) =
     (case load_node sys n p x of None \<Rightarrow> loaded_of sys n p xs | Some l \<Rightarrow> l # loaded_of sys n p xs)"
  by (simp add: loaded_of_def map_filter_simps split: option.splits)

lemma load_loop_acc:
  "load_loop sys n p paths acc =
     (fst acc @ loaded_of sys n p paths,
      snd acc @ map (\<lambda>l. ConsoleLog (''  Loaded '' @ nodeName l)) (loaded_of sys n p paths))"
proof (induction paths arbitrary: acc)
  case Nil
  then show ?case by (simp add: loaded_of_Nil)
next
  case (Cons x xs)
  show ?case
    by (cases "load_node sys n p x") (simp_all add: Cons.IH loaded_of_Cons)
qed

lemma loaded_of_set:
  "set (loaded_of sys n p paths) = {l. \<exists>x\<in>set paths. load_node sys n p x = Some l}"
  by (induction paths) (auto simp add: loaded_of_Nil loaded_of_Cons split: option.splits)

lemma load_node_None:
  "load_node sys n p x = None \<longleftrightarrow>
     (case require_resolve sys (p @ ''/'' @ x) of
        None \<Rightarrow> True
      | Some fullPath \<Rightarrow>
          (case require_module sys fullPath of
             None \<Rightarrow> True
           | Some m \<Rightarrow>
               \<not> class_truthy (pick_class m
                   (case nodeNameMatch x of Some a \<Rightarrow> a | None \<Rightarrow> path_basename sys x ''.node.js''))))"
  by (simp add: load_node_def Let_def split: option.splits)

lemma load_packages_nodes:
  "fst (load_packages rt sys pkgs acc) =
     fst acc @ concat (map (\<lambda>(n, p). case require_json sys (p @ ''/package.json'') of
                                        None \<Rightarrow> []
                                      | Some d \<Rightarrow> fst (loadPackageNodes sys n p d)) pkgs)"
proof (induction pkgs arbitrary: acc)
  case Nil
  then show ?case by simp
next
  case (Cons a pkgs)
  obtain n p where a: "a = (n, p)" by (cases a)
  show ?case
    unfolding a by (cases "require_json sys (p @ ''/package.json'')") (simp_all add: Cons.IH Let_def)
qed

text \<open>
  C3, as the code has it. A module that fails to load never aborts the scan: the failure
  is swallowed without a log line and the module is left out. The scan of a manifest
  returns exactly the nodes that load, in the order of the manifest, and logs one line for
  each of them and nothing else. A module fails to load when it cannot be resolved, when
  requiring it throws, or when the class picked from its exports is falsy. The scan of all
  packages chains the scans of the packages whose manifest can be required.
\<close>

theorem scan_keeps_loaded_modules:
  "loadPackageNodes sys pkgName packagePath (NodesArray paths) =
     (loaded_of sys pkgName packagePath paths,
      map (\<lambda>l. ConsoleLog (''  Loaded '' @ nodeName l)) (loaded_of sys pkgName packagePath paths)) \<and>
   set (loaded_of sys pkgName packagePath paths) =
     {l. \<exists>x\<in>set paths. load_node sys pkgName packagePath x = Some l} \<and>
   length (loaded_of sys pkgName packagePath paths) =
     length (filter (\<lambda>x. load_node sys pkgName packagePath x \<noteq> None) paths) \<and>
   (\<forall>x. load_node sys pkgName packagePath x = None \<longleftrightarrow>
      (require_resolve sys (packagePath @ ''/'' @ x) = None \<or>
       (\<exists>f. require_resolve sys (packagePath @ ''/'' @ x) = Some f \<and> require_module sys f = None) \<or>
       (\<exists>f m. require_resolve sys (packagePath @ ''/'' @ x) = Some f \<and> require_module sys f = Some m \<and>
          \<not> class_truthy (pick_class m
               (case nodeNameMatch x of Some a \<Rightarrow> a | None \<Rightarrow> path_basename sys x ''.node.js''))))) \<and>
   fst (loadAllNodes rt sys) =
     concat (map (\<lambda>(n, p). case require_json sys (p @ ''/package.json'') of
                              None \<Rightarrow> []
                            | Some d \<Rightarrow> fst (loadPackageNodes sys n p d)) CORE_PACKAGES)"
proof -
  have a: "loadPackageNodes sys pkgName packagePath (NodesArray paths) =
     (loaded_of sys pkgName packagePath paths,
      map (\<lambda>l. ConsoleLog (''  Loaded '' @ nodeName l)) (loaded_of sys pkgName packagePath paths))"
    by (simp add: loadPackageNodes_def load_loop_acc)
  have b: "set (loaded_of sys pkgName packagePath paths) =
     {l. \<exists>x\<in>set paths. load_node sys pkgName packagePath x = Some l}"
    by (rule loaded_of_set)
  have c: "length (loaded_of sys pkgName packagePath paths) =
     length (filter (\<lambda>x. load_node sys pkgName packagePath x \<noteq> None) paths)"
    by (induction paths) (auto simp add: loaded_of_Nil loaded_of_Cons split: option.splits)
  have d: "\<forall>x. load_node sys pkgName packagePath x = None \<longleftrightarrow>
      (require_resolve sys (packagePath @ ''/'' @ x) = None \<or>
       (\<exists>f. require_resolve sys (packagePath @ ''/'' @ x) = Some f \<and> require_module sys f = None) \<or>
       (\<exists>f m. require_resolve sys (packagePath @ ''/'' @ x) = Some f \<and> require_module sys f = Some m \<and>
          \<not> class_truthy (pick_class m
               (case nodeNameMatch x of Some a \<Rightarrow> a | None \<Rightarrow> path_basename sys x ''.node.js''))))"
    by (auto simp add: load_node_None split: option.splits)
  have e: "fst (loadAllNodes rt sys) =
     concat (map (\<lambda>(n, p). case require_json sys (p @ ''/package.json'') of
                              None \<Rightarrow> []
                            | Some d \<Rightarrow> fst (loadPackageNodes sys n p d)) CORE_PACKAGES)"
    by (simp add: loadAllNodes_def load_packages_nodes)
  from a b c d e show ?thesis by blast
qed

lemmas scan_simps = demo_sys_def demo_paths_def demo_module_def demo_class_def load_node_def
  nodeNameMatch_def pick_class_def loaded_of_Cons loaded_of_Nil Let_def suffix_to_prefix

lemma demo_loaded:
  "map nodeName (loaded_of demo_sys ''n8n-nodes-base'' ''n8n-nodes-base'' demo_paths) = [''A'', ''C'']"
  by (simp add: scan_simps)

theorem scan_keeps_loaded_modules_witness:
  "load_node demo_sys ''n8n-nodes-base'' ''n8n-nodes-base'' ''dist/nodes/B/B.node.js'' = None \<and>
   map nodeName (fst (loadPackageNodes demo_sys ''n8n-nodes-base'' ''n8n-nodes-base''
                        (NodesArray demo_paths))) = [''A'', ''C''] \<and>
   length (fst (loadAllNodes demo_runtime demo_sys)) = 2"
proof -
  note T = scan_keeps_loaded_modules [of demo_sys "''n8n-nodes-base''" "''n8n-nodes-base''" demo_paths
      demo_runtime]
  have r: "require_resolve demo_sys (''n8n-nodes-base'' @ ''/'' @ ''dist/nodes/B/B.node.js'') = None"
    by (simp add: demo_sys_def)
  have T4: "load_node demo_sys ''n8n-nodes-base'' ''n8n-nodes-base'' ''dist/nodes/B/B.node.js'' = None \<longleftrightarrow>
      (require_resolve demo_sys (''n8n-nodes-base'' @ ''/'' @ ''dist/nodes/B/B.node.js'') = None \<or>
       (\<exists>f. require_resolve demo_sys (''n8n-nodes-base'' @ ''/'' @ ''dist/nodes/B/B.node.js'') = Some f \<and>
            require_module demo_sys f = None) \<or>
       (\<exists>f m. require_resolve demo_sys (''n8n-nodes-base'' @ ''/'' @ ''dist/nodes/B/B.node.js'') = Some f \<and>
            require_module demo_sys f = Some m \<and>
            \<not> class_truthy (pick_class m
               (case nodeNameMatch ''dist/nodes/B/B.node.js'' of
                  Some a \<Rightarrow> a
                | None \<Rightarrow> path_basename demo_sys ''dist/nodes/B/B.node.js'' ''.node.js''))))"
    using T [THEN conjunct2, THEN conjunct2, THEN conjunct2, THEN conjunct1] by (rule spec)
  have one: "load_node demo_sys ''n8n-nodes-base'' ''n8n-nodes-base'' ''dist/nodes/B/B.node.js'' = None"
    unfolding T4 using r by (rule disjI1)
  have two: "map nodeName (fst (loadPackageNodes demo_sys ''n8n-nodes-base'' ''n8n-nodes-base''
                        (NodesArray demo_paths))) = [''A'', ''C'']"
    unfolding T [THEN conjunct1] fst_conv by (rule demo_loaded)
  have j: "require_json demo_sys (''n8n-nodes-base'' @ ''/package.json'') = Some (NodesArray demo_paths)"
          "require_json demo_sys (''@n8n/n8n-nodes-langchain'' @ ''/package.json'') = None"
    by (simp_all add: demo_sys_def)
  have all: "fst (loadAllNodes demo_runtime demo_sys) =
          fst (loadPackageNodes demo_sys ''n8n-nodes-base'' ''n8n-nodes-base'' (NodesArray demo_paths))"
    unfolding T [THEN conjunct2, THEN conjunct2, THEN conjunct2, THEN conjunct2] CORE_PACKAGES_def
    by (simp only: list.map prod.case j option.case concat.simps append_Nil2)
  have "length (map nodeName (fst (loadAllNodes demo_runtime demo_sys))) = length [''A'', ''C'']"
    unfolding all two by (rule refl)
  then have three: "length (fst (loadAllNodes demo_runtime demo_sys)) = 2"
    by simp
  from one two three show ?thesis by (intro conjI)
qed

text \<open>
  The second of three modules fails to load. Two nodes are returned, and the console holds
  no line for the failure: the only error line is for the package whose manifest is missing.
\<close>

theorem scan_keeps_loaded_modules_counterexample:
  "load_node demo_sys ''n8n-nodes-base'' ''n8n-nodes-base'' ''dist/nodes/B/B.node.js'' = None \<and>
   snd (loadPackageNodes demo_sys ''n8n-nodes-base'' ''n8n-nodes-base'' (NodesArray demo_paths)) =
     [ConsoleLog ''  Loaded A'', ConsoleLog ''  Loaded C''] \<and>
   snd (loadAllNodes demo_runtime demo_sys) =
     [ConsoleLog ''Loading package: n8n-nodes-base'',
      ConsoleLog ''  Found 3 nodes in package.json'',
      ConsoleLog ''  Loaded A'',
      ConsoleLog ''  Loaded C'',
      ConsoleLog ''Loading package: @n8n/n8n-nodes-langchain'',
      ConsoleError ''Failed to load @n8n/n8n-nodes-langchain:'']"
proof -
  have one: "load_node demo_sys ''n8n-nodes-base'' ''n8n-nodes-base'' ''dist/nodes/B/B.node.js'' = None"
    by (simp add: load_node_def demo_sys_def)
  have mods: "map nodeName (loaded_of demo_sys ''n8n-nodes-base'' ''n8n-nodes-base'' demo_paths) = [''A'', ''C'']"
    by (rule demo_loaded)
  have lg: "snd (loadPackageNodes demo_sys ''n8n-nodes-base'' ''n8n-nodes-base'' (NodesArray demo_paths)) =
     map (\<lambda>n. ConsoleLog (''  Loaded '' @ n))
       (map nodeName (loaded_of demo_sys ''n8n-nodes-base'' ''n8n-nodes-base'' demo_paths))"
    by (simp add: loadPackageNodes_def load_loop_acc)
  have two: "snd (loadPackageNodes demo_sys ''n8n-nodes-base'' ''n8n-nodes-base'' (NodesArray demo_paths)) =
     [ConsoleLog ''  Loaded A'', ConsoleLog ''  Loaded C'']"
    unfolding lg mods by simp
  have j: "require_json demo_sys ''n8n-nodes-base/package.json'' = Some (NodesArray demo_paths)"
          "require_json demo_sys ''@n8n/n8n-nodes-langchain/package.json'' = None"
    by (simp_all add: demo_sys_def)
  have n: "Number_toString demo_runtime (of_nat (declared_count (NodesArray demo_paths))) = ''3''"
    by (simp add: demo_runtime_def declared_count_def demo_paths_def)
  have three: "snd (loadAllNodes demo_runtime demo_sys) =
     [ConsoleLog ''Loading package: n8n-nodes-base'',
      ConsoleLog ''  Found 3 nodes in package.json'',
      ConsoleLog ''  Loaded A'',
      ConsoleLog ''  Loaded C'',
      ConsoleLog ''Loading package: @n8n/n8n-nodes-langchain'',
      ConsoleError ''Failed to load @n8n/n8n-nodes-langchain:'']"
    by (simp add: loadAllNodes_def CORE_PACKAGES_def j n two Let_def)
  from one two three show ?thesis by (intro conjI)
qed

section \<open>Outcomes of the release reconciler\<close>

lemma retrieved_Some:
  "retrieved fetch u = Some m \<longleftrightarrow> (\<exists>r. fetch u = Some r \<and> ok r \<and> json r = Some m)"
  by (cases "fetch u") (simp_all add: retrieved_def)

lemma retrieved_None:
  "retrieved fetch u = None \<longleftrightarrow>
     fetch u = None \<or> (\<exists>r. fetch u = Some r \<and> (\<not> ok r \<or> json r = None))"
  by (cases "fetch u") (simp_all add: retrieved_def)

lemma body_cli_rejects:
  "fetch (raw_url tag ''/packages/cli/package.json'') = None \<Longrightarrow>
   fst (fetch_catalog_body rt fetch now tag) = Inl NetworkError"
  by (simp add: fetch_catalog_body_def raw_url_def Let_def)

lemma body_cli_not_ok:
  "fetch (raw_url tag ''/packages/cli/package.json'') = Some r \<Longrightarrow> \<not> ok r \<Longrightarrow>
   fst (fetch_catalog_body rt fetch now tag) =
     Inl (FetchFailed (''Failed to fetch n8n version from '' @ tag @ '': '' @ statusText r))"
  by (simp add: fetch_catalog_body_def raw_url_def Let_def)

lemma body_cli_no_json:
  "fetch (raw_url tag ''/packages/cli/package.json'') = Some r \<Longrightarrow> ok r \<Longrightarrow> json r = None \<Longrightarrow>
   fst (fetch_catalog_body rt fetch now tag) = Inl JsonError"
  by (simp add: fetch_catalog_body_def raw_url_def Let_def)

lemma body_base_rejects:
  "fetch (raw_url tag ''/packages/cli/package.json'') = Some r \<Longrightarrow> ok r \<Longrightarrow> json r = Some v \<Longrightarrow>
   fetch (raw_url tag ''/packages/nodes-base/package.json'') = None \<Longrightarrow>
   fst (fetch_catalog_body rt fetch now tag) = Inl NetworkError"
  by (simp add: fetch_catalog_body_def raw_url_def Let_def)

lemma body_base_not_ok:
  "fetch (raw_url tag ''/packages/cli/package.json'') = Some r \<Longrightarrow> ok r \<Longrightarrow> json r = Some v \<Longrightarrow>
   fetch (raw_url tag ''/packages/nodes-base/package.json'') = Some r2 \<Longrightarrow> \<not> ok r2 \<Longrightarrow>
   fst (fetch_catalog_body rt fetch now tag) =
     Inl (FetchFailed (''Failed to fetch nodes-base package: '' @ statusText r2))"
  by (simp add: fetch_catalog_body_def raw_url_def Let_def)

lemma body_base_no_json:
  "fetch (raw_url tag ''/packages/cli/package.json'') = Some r \<Longrightarrow> ok r \<Longrightarrow> json r = Some v \<Longrightarrow>
   fetch (raw_url tag ''/packages/nodes-base/package.json'') = Some r2 \<Longrightarrow> ok r2 \<Longrightarrow> json r2 = None \<Longrightarrow>
   fst (fetch_catalog_body rt fetch now tag) = Inl JsonError"
  by (simp add: fetch_catalog_body_def raw_url_def Let_def)

lemma body_langchain_rejects:
  "fetch (raw_url tag ''/packages/cli/package.json'') = Some r \<Longrightarrow> ok r \<Longrightarrow> json r = Some v \<Longrightarrow>
   fetch (raw_url tag ''/packages/nodes-base/package.json'') = Some r2 \<Longrightarrow> ok r2 \<Longrightarrow> json r2 = Some b \<Longrightarrow>
   fetch (raw_url tag ''/packages/@n8n/n8n-nodes-langchain/package.json'') = None \<Longrightarrow>
   fst (fetch_catalog_body rt fetch now tag) = Inl NetworkError"
  by (simp add: fetch_catalog_body_def raw_url_def Let_def)

lemma body_langchain_no_json:
  "fetch (raw_url tag ''/packages/cli/package.json'') = Some r \<Longrightarrow> ok r \<Longrightarrow> json r = Some v \<Longrightarrow>
   fetch (raw_url tag ''/packages/nodes-base/package.json'') = Some r2 \<Longrightarrow> ok r2 \<Longrightarrow> json r2 = Some b \<Longrightarrow>
   fetch (raw_url tag ''/packages/@n8n/n8n-nodes-langchain/package.json'') = Some r3 \<Longrightarrow> ok r3 \<Longrightarrow>
   json r3 = None \<Longrightarrow>
   fst (fetch_catalog_body rt fetch now tag) = Inl JsonError"
  by (simp add: fetch_catalog_body_def raw_url_def Let_def)

lemma body_langchain_not_ok:
  "fetch (raw_url tag ''/packages/cli/package.json'') = Some r \<Longrightarrow> ok r \<Longrightarrow> json r = Some v \<Longrightarrow>
   fetch (raw_url tag ''/packages/nodes-base/package.json'') = Some r2 \<Longrightarrow> ok r2 \<Longrightarrow> json r2 = Some b \<Longrightarrow>
   fetch (raw_url tag ''/packages/@n8n/n8n-nodes-langchain/package.json'') = Some r3 \<Longrightarrow> \<not> ok r3 \<Longrightarrow>
   fetch_catalog_body rt fetch now tag =
     (Inr \<lparr> cat_version = pm_version v, fetchedFrom = tag, nodesBase = declared_nodes b,
            langchain = [], timestamp = now \<rparr>,
      [LogInfo (''Fetching node catalog from n8n GitHub ('' @ tag @ '')...''),
       LogInfo (''n8n version: '' @ tmpl (pm_version v)),
       LogInfo (''Found '' @ Number_toString rt (of_nat (length (declared_nodes b))) @ '' nodes in nodes-base''),
       LogWarn (''Could not fetch langchain nodes from '' @ tag)])"
  by (simp add: fetch_catalog_body_def raw_url_def declared_nodes_def Let_def)

lemma body_all_ok:
  "fetch (raw_url tag ''/packages/cli/package.json'') = Some r \<Longrightarrow> ok r \<Longrightarrow> json r = Some v \<Longrightarrow>
   fetch (raw_url tag ''/packages/nodes-base/package.json'') = Some r2 \<Longrightarrow> ok r2 \<Longrightarrow> json r2 = Some b \<Longrightarrow>
   fetch (raw_url tag ''/packages/@n8n/n8n-nodes-langchain/package.json'') = Some r3 \<Longrightarrow> ok r3 \<Longrightarrow>
   json r3 = Some l \<Longrightarrow>
   fst (fetch_catalog_body rt fetch now tag) =
     Inr \<lparr> cat_version = pm_version v, fetchedFrom = tag, nodesBase = declared_nodes b,
           langchain = declared_nodes l, timestamp = now \<rparr>"
  by (simp add: fetch_catalog_body_def raw_url_def declared_nodes_def Let_def)

lemma fetch_fst: "fst (fetchNodeCatalogFromGitHub rt fetch now tag) = fst (fetch_catalog_body rt fetch now tag)"
  by (simp add: fetchNodeCatalogFromGitHub_def split: prod.splits sum.splits)

lemma fetch_snd:
  "snd (fetchNodeCatalogFromGitHub rt fetch now tag) =
     snd (fetch_catalog_body rt fetch now tag) @
     (case fst (fetch_catalog_body rt fetch now tag) of
        Inl e \<Rightarrow> [LogError (''Failed to fetch node catalog from GitHub ('' @ tag @ ''):'')]
      | Inr c \<Rightarrow> [])"
  by (simp add: fetchNodeCatalogFromGitHub_def split: prod.splits sum.splits)


lemma body_version_missing:
  assumes "retrieved fetch (raw_url tag ''/packages/cli/package.json'') = None"
  shows "\<exists>e. fst (fetch_catalog_body rt fetch now tag) = Inl e"
proof (cases "fetch (raw_url tag ''/packages/cli/package.json'')")
  case None
  then show ?thesis using body_cli_rejects by blast
next
  case (Some r)
  then have "\<not> ok r \<or> json r = None"
    using assms by (auto simp add: retrieved_None)
  then show ?thesis
    using Some body_cli_not_ok [of fetch tag r rt now] body_cli_no_json [of fetch tag r rt now]
    by (cases "ok r") auto
qed

lemma body_base_missing:
  assumes "retrieved fetch (raw_url tag ''/packages/cli/package.json'') = Some v"
    and "retrieved fetch (raw_url tag ''/packages/nodes-base/package.json'') = None"
  shows "\<exists>e. fst (fetch_catalog_body rt fetch now tag) = Inl e"
proof -
  obtain r where r: "fetch (raw_url tag ''/packages/cli/package.json'') = Some r" "ok r" "json r = Some v"
    using assms(1) by (auto simp add: retrieved_Some)
  show ?thesis
  proof (cases "fetch (raw_url tag ''/packages/nodes-base/package.json'')")
    case None
    then show ?thesis using body_base_rejects [of fetch tag, OF r] by blast
  next
    case (Some r2)
    then have "\<not> ok r2 \<or> json r2 = None"
      using assms(2) by (auto simp add: retrieved_None)
    then show ?thesis
      using body_base_not_ok [of fetch tag, OF r Some, of rt now] body_base_no_json [of fetch tag, OF r Some, of rt now]
      by (cases "ok r2") auto
  qed
qed

lemma body_langchain_broken:
  assumes "retrieved fetch (raw_url tag ''/packages/cli/package.json'') = Some v"
    and "retrieved fetch (raw_url tag ''/packages/nodes-base/package.json'') = Some b"
    and "fetch (raw_url tag ''/packages/@n8n/n8n-nodes-langchain/package.json'') = None \<or>
         (\<exists>r3. fetch (raw_url tag ''/packages/@n8n/n8n-nodes-langchain/package.json'') = Some r3 \<and>
            ok r3 \<and> json r3 = None)"
  shows "\<exists>e. fst (fetch_catalog_body rt fetch now tag) = Inl e"
proof -
  obtain r where r: "fetch (raw_url tag ''/packages/cli/package.json'') = Some r" "ok r" "json r = Some v"
    using assms(1) by (auto simp add: retrieved_Some)
  obtain r2 where r2: "fetch (raw_url tag ''/packages/nodes-base/package.json'') = Some r2" "ok r2" "json r2 = Some b"
    using assms(2) by (auto simp add: retrieved_Some)
  from assms(3) show ?thesis
  proof
    assume "fetch (raw_url tag ''/packages/@n8n/n8n-nodes-langchain/package.json'') = None"
    then show ?thesis using body_langchain_rejects [of fetch tag, OF r r2] by blast
  next
    assume "\<exists>r3. fetch (raw_url tag ''/packages/@n8n/n8n-nodes-langchain/package.json'') = Some r3 \<and>
            ok r3 \<and> json r3 = None"
    then obtain r3 where "fetch (raw_url tag ''/packages/@n8n/n8n-nodes-langchain/package.json'') = Some r3"
      "ok r3" "json r3 = None" by blast
    then show ?thesis using body_langchain_no_json [of fetch tag, OF r r2] by blast
  qed
qed

lemma body_langchain_missing:
  assumes "retrieved fetch (raw_url tag ''/packages/cli/package.json'') = Some v"
    and "retrieved fetch (raw_url tag ''/packages/nodes-base/package.json'') = Some b"
    and "fetch (raw_url tag ''/packages/@n8n/n8n-nodes-langchain/package.json'') = Some r3"
    and "\<not> ok r3"
  shows "fetch_catalog_body rt fetch now tag =
     (Inr \<lparr> cat_version = pm_version v, fetchedFrom = tag, nodesBase = declared_nodes b,
            langchain = [], timestamp = now \<rparr>,
      [LogInfo (''Fetching node catalog from n8n GitHub ('' @ tag @ '')...''),
       LogInfo (''n8n version: '' @ tmpl (pm_version v)),
       LogInfo (''Found '' @ Number_toString rt (of_nat (length (declared_nodes b))) @ '' nodes in nodes-base''),
       LogWarn (''Could not fetch langchain nodes from '' @ tag)])"
proof -
  obtain r where r: "fetch (raw_url tag ''/packages/cli/package.json'') = Some r" "ok r" "json r = Some v"
    using assms(1) by (auto simp add: retrieved_Some)
  obtain r2 where r2: "fetch (raw_url tag ''/packages/nodes-base/package.json'') = Some r2" "ok r2" "json r2 = Some b"
    using assms(2) by (auto simp add: retrieved_Some)
  show ?thesis
    using body_langchain_not_ok [of fetch tag, OF r r2 assms(3,4)] .
qed

lemma body_all_retrieved:
  assumes "retrieved fetch (raw_url tag ''/packages/cli/package.json'') = Some v"
    and "retrieved fetch (raw_url tag ''/packages/nodes-base/package.json'') = Some b"
    and "retrieved fetch (raw_url tag ''/packages/@n8n/n8n-nodes-langchain/package.json'') = Some l"
  shows "fst (fetch_catalog_body rt fetch now tag) =
     Inr \<lparr> cat_version = pm_version v, fetchedFrom = tag, nodesBase = declared_nodes b,
           langchain = declared_nodes l, timestamp = now \<rparr>"
proof -
  obtain r where r: "fetch (raw_url tag ''/packages/cli/package.json'') = Some r" "ok r" "json r = Some v"
    using assms(1) by (auto simp add: retrieved_Some)
  obtain r2 where r2: "fetch (raw_url tag ''/packages/nodes-base/package.json'') = Some r2" "ok r2" "json r2 = Some b"
    using assms(2) by (auto simp add: retrieved_Some)
  obtain r3 where r3: "fetch (raw_url tag ''/packages/@n8n/n8n-nodes-langchain/package.json'') = Some r3"
      "ok r3" "json r3 = Some l"
    using assms(3) by (auto simp add: retrieved_Some)
  show ?thesis
    using body_all_ok [of fetch tag, OF r r2 r3] .
qed

lemma body_fails_iff:
  "(\<exists>e. fst (fetch_catalog_body rt fetch now tag) = Inl e) \<longleftrightarrow>
     retrieved fetch (raw_url tag ''/packages/cli/package.json'') = None \<or>
     retrieved fetch (raw_url tag ''/packages/nodes-base/package.json'') = None \<or>
     fetch (raw_url tag ''/packages/@n8n/n8n-nodes-langchain/package.json'') = None \<or>
     (\<exists>r3. fetch (raw_url tag ''/packages/@n8n/n8n-nodes-langchain/package.json'') = Some r3 \<and>
        ok r3 \<and> json r3 = None)"
proof (cases "retrieved fetch (raw_url tag ''/packages/cli/package.json'')")
  case None
  then show ?thesis using body_version_missing by blast
next
  case v: (Some v)
  show ?thesis
  proof (cases "retrieved fetch (raw_url tag ''/packages/nodes-base/package.json'')")
    case None
    then show ?thesis using body_base_missing [of fetch tag, OF v] by blast
  next
    case b: (Some b)
    show ?thesis
    proof (cases "fetch (raw_url tag ''/packages/@n8n/n8n-nodes-langchain/package.json'')")
      case None
      then show ?thesis using body_langchain_broken [of fetch tag, OF v b] by blast
    next
      case r3: (Some r3)
      show ?thesis
      proof (cases "ok r3")
        case False
        have "fst (fetch_catalog_body rt fetch now tag) =
                Inr \<lparr> cat_version = pm_version v, fetchedFrom = tag, nodesBase = declared_nodes b,
                      langchain = [], timestamp = now \<rparr>"
          using body_langchain_missing [of fetch tag, OF v b r3 False, of rt now] by simp
        then show ?thesis using v b r3 False by simp
      next
        case True
        show ?thesis
        proof (cases "json r3")
          case None
          then show ?thesis using body_langchain_broken [of fetch tag, OF v b, of rt now] r3 True by blast
        next
          case (Some l)
          have "retrieved fetch (raw_url tag ''/packages/@n8n/n8n-nodes-langchain/package.json'') = Some l"
            using r3 True Some by (simp add: retrieved_def)
          then have "fst (fetch_catalog_body rt fetch now tag) =
                Inr \<lparr> cat_version = pm_version v, fetchedFrom = tag, nodesBase = declared_nodes b,
                      langchain = declared_nodes l, timestamp = now \<rparr>"
            using body_all_retrieved [of fetch tag, OF v b] by blast
          then show ?thesis using v b r3 True Some by simp
        qed
      qed
    qed
  qed
qed

text \<open>
  C7, as the code has it. The call fails when the version file of the platform cannot be
  retrieved, and also when the manifest of the base package cannot be retrieved, when the
  request for the manifest of the extension package rejects, and when that manifest arrives
  and does not parse; it fails in no other case, and a failure is logged before it is
  thrown again. When the response for the extension package is not \<open>ok\<close> the call
  succeeds with an empty extension list and a warning. A call that succeeds returns the
  version of the version file and the two lists of declared node files.
\<close>

theorem release_manifest_outcome:
  "(retrieved fetch (raw_url tag ''/packages/cli/package.json'') = None \<longrightarrow>
      (\<exists>e. fst (fetchNodeCatalogFromGitHub rt fetch now tag) = Inl e)) \<and>
   (retrieved fetch (raw_url tag ''/packages/nodes-base/package.json'') = None \<longrightarrow>
      (\<exists>e. fst (fetchNodeCatalogFromGitHub rt fetch now tag) = Inl e)) \<and>
   (\<forall>v b r3.
      retrieved fetch (raw_url tag ''/packages/cli/package.json'') = Some v \<and>
      retrieved fetch (raw_url tag ''/packages/nodes-base/package.json'') = Some b \<and>
      fetch (raw_url tag ''/packages/@n8n/n8n-nodes-langchain/package.json'') = Some r3 \<and> \<not> ok r3 \<longrightarrow>
      fst (fetchNodeCatalogFromGitHub rt fetch now tag) =
        Inr \<lparr> cat_version = pm_version v, fetchedFrom = tag, nodesBase = declared_nodes b,
              langchain = [], timestamp = now \<rparr> \<and>
      LogWarn (''Could not fetch langchain nodes from '' @ tag) \<in>
        set (snd (fetchNodeCatalogFromGitHub rt fetch now tag))) \<and>
   (\<forall>v b l.
      retrieved fetch (raw_url tag ''/packages/cli/package.json'') = Some v \<and>
      retrieved fetch (raw_url tag ''/packages/nodes-base/package.json'') = Some b \<and>
      retrieved fetch (raw_url tag ''/packages/@n8n/n8n-nodes-langchain/package.json'') = Some l \<longrightarrow>
      fst (fetchNodeCatalogFromGitHub rt fetch now tag) =
        Inr \<lparr> cat_version = pm_version v, fetchedFrom = tag, nodesBase = declared_nodes b,
              langchain = declared_nodes l, timestamp = now \<rparr>) \<and>
   ((\<exists>e. fst (fetchNodeCatalogFromGitHub rt fetch now tag) = Inl e) \<longleftrightarrow>
      retrieved fetch (raw_url tag ''/packages/cli/package.json'') = None \<or>
      retrieved fetch (raw_url tag ''/packages/nodes-base/package.json'') = None \<or>
      fetch (raw_url tag ''/packages/@n8n/n8n-nodes-langchain/package.json'') = None \<or>
      (\<exists>r3. fetch (raw_url tag ''/packages/@n8n/n8n-nodes-langchain/package.json'') = Some r3 \<and>
         ok r3 \<and> json r3 = None)) \<and>
   (\<forall>e. fst (fetchNodeCatalogFromGitHub rt fetch now tag) = Inl e \<longrightarrow>
      LogError (''Failed to fetch node catalog from GitHub ('' @ tag @ ''):'') \<in>
        set (snd (fetchNodeCatalogFromGitHub rt fetch now tag)))"
proof -
  have a: "retrieved fetch (raw_url tag ''/packages/cli/package.json'') = None \<longrightarrow>
      (\<exists>e. fst (fetchNodeCatalogFromGitHub rt fetch now tag) = Inl e)"
    unfolding fetch_fst using body_fails_iff [of rt fetch now tag] by blast
  have b: "retrieved fetch (raw_url tag ''/packages/nodes-base/package.json'') = None \<longrightarrow>
      (\<exists>e. fst (fetchNodeCatalogFromGitHub rt fetch now tag) = Inl e)"
    unfolding fetch_fst using body_fails_iff [of rt fetch now tag] by blast
  have c: "\<forall>v b r3.
      retrieved fetch (raw_url tag ''/packages/cli/package.json'') = Some v \<and>
      retrieved fetch (raw_url tag ''/packages/nodes-base/package.json'') = Some b \<and>
      fetch (raw_url tag ''/packages/@n8n/n8n-nodes-langchain/package.json'') = Some r3 \<and> \<not> ok r3 \<longrightarrow>
      fst (fetchNodeCatalogFromGitHub rt fetch now tag) =
        Inr \<lparr> cat_version = pm_version v, fetchedFrom = tag, nodesBase = declared_nodes b,
              langchain = [], timestamp = now \<rparr> \<and>
      LogWarn (''Could not fetch langchain nodes from '' @ tag) \<in>
        set (snd (fetchNodeCatalogFromGitHub rt fetch now tag))"
  proof (intro allI impI)
    fix v b r3
    assume h: "retrieved fetch (raw_url tag ''/packages/cli/package.json'') = Some v \<and>
      retrieved fetch (raw_url tag ''/packages/nodes-base/package.json'') = Some b \<and>
      fetch (raw_url tag ''/packages/@n8n/n8n-nodes-langchain/package.json'') = Some r3 \<and> \<not> ok r3"
    have body: "fetch_catalog_body rt fetch now tag =
     (Inr \<lparr> cat_version = pm_version v, fetchedFrom = tag, nodesBase = declared_nodes b,
            langchain = [], timestamp = now \<rparr>,
      [LogInfo (''Fetching node catalog from n8n GitHub ('' @ tag @ '')...''),
       LogInfo (''n8n version: '' @ tmpl (pm_version v)),
       LogInfo (''Found '' @ Number_toString rt (of_nat (length (declared_nodes b))) @ '' nodes in nodes-base''),
       LogWarn (''Could not fetch langchain nodes from '' @ tag)])"
      using h body_langchain_missing [of fetch tag v b r3 rt now] by blast
    show "fst (fetchNodeCatalogFromGitHub rt fetch now tag) =
        Inr \<lparr> cat_version = pm_version v, fetchedFrom = tag, nodesBase = declared_nodes b,
              langchain = [], timestamp = now \<rparr> \<and>
      LogWarn (''Could not fetch langchain nodes from '' @ tag) \<in>
        set (snd (fetchNodeCatalogFromGitHub rt fetch now tag))"
      unfolding fetch_fst fetch_snd body by simp
  qed
  have d: "\<forall>v b l.
      retrieved fetch (raw_url tag ''/packages/cli/package.json'') = Some v \<and>
      retrieved fetch (raw_url tag ''/packages/nodes-base/package.json'') = Some b \<and>
      retrieved fetch (raw_url tag ''/packages/@n8n/n8n-nodes-langchain/package.json'') = Some l \<longrightarrow>
      fst (fetchNodeCatalogFromGitHub rt fetch now tag) =
        Inr \<lparr> cat_version = pm_version v, fetchedFrom = tag, nodesBase = declared_nodes b,
              langchain = declared_nodes l, timestamp = now \<rparr>"
    unfolding fetch_fst using body_all_retrieved [of fetch tag _ _ _ rt now] by blast
  have e: "(\<exists>e. fst (fetchNodeCatalogFromGitHub rt fetch now tag) = Inl e) \<longleftrightarrow>
      retrieved fetch (raw_url tag ''/packages/cli/package.json'') = None \<or>
      retrieved fetch (raw_url tag ''/packages/nodes-base/package.json'') = None \<or>
      fetch (raw_url tag ''/packages/@n8n/n8n-nodes-langchain/package.json'') = None \<or>
      (\<exists>r3. fetch (raw_url tag ''/packages/@n8n/n8n-nodes-langchain/package.json'') = Some r3 \<and>
         ok r3 \<and> json r3 = None)"
    unfolding fetch_fst by (rule body_fails_iff)
  have f: "\<forall>e. fst (fetchNodeCatalogFromGitHub rt fetch now tag) = Inl e \<longrightarrow>
      LogError (''Failed to fetch node catalog from GitHub ('' @ tag @ ''):'') \<in>
        set (snd (fetchNodeCatalogFromGitHub rt fetch now tag))"
    unfolding fetch_fst fetch_snd by simp
  from a b c d e f show ?thesis by (intro conjI)
qed

lemmas fetch_simps = fetch_without_base_def fetch_without_langchain_def found_def not_found_def
  retrieved_def raw_url_def declared_nodes_def

theorem release_manifest_outcome_witness:
  "fst (fetchNodeCatalogFromGitHub demo_runtime fetch_without_langchain ''now'' ''n8n@2.0.3'') =
     Inr \<lparr> cat_version = Some ''2.0.3'', fetchedFrom = ''n8n@2.0.3'',
           nodesBase = [''dist/nodes/A/A.node.js'', ''dist/nodes/C/C.node.js''],
           langchain = [], timestamp = ''now'' \<rparr> \<and>
   LogWarn ''Could not fetch langchain nodes from n8n@2.0.3'' \<in>
     set (snd (fetchNodeCatalogFromGitHub demo_runtime fetch_without_langchain ''now'' ''n8n@2.0.3''))"
proof -
  let ?v = "\<lparr> pm_version = Some ''2.0.3'', pm_nodes = None \<rparr>"
  let ?b = "\<lparr> pm_version = Some ''2.0.3'',
             pm_nodes = Some [''dist/nodes/A/A.node.js'', ''dist/nodes/C/C.node.js''] \<rparr>"
  have h: "retrieved fetch_without_langchain (raw_url ''n8n@2.0.3'' ''/packages/cli/package.json'') = Some ?v \<and>
      retrieved fetch_without_langchain (raw_url ''n8n@2.0.3'' ''/packages/nodes-base/package.json'') = Some ?b \<and>
      fetch_without_langchain (raw_url ''n8n@2.0.3'' ''/packages/@n8n/n8n-nodes-langchain/package.json'') =
        Some not_found \<and> \<not> ok not_found"
    by (simp add: fetch_simps)
  note T = release_manifest_outcome [of fetch_without_langchain "''n8n@2.0.3''" demo_runtime "''now''"]
  have "fst (fetchNodeCatalogFromGitHub demo_runtime fetch_without_langchain ''now'' ''n8n@2.0.3'') =
        Inr \<lparr> cat_version = pm_version ?v, fetchedFrom = ''n8n@2.0.3'', nodesBase = declared_nodes ?b,
              langchain = [], timestamp = ''now'' \<rparr> \<and>
      LogWarn (''Could not fetch langchain nodes from '' @ ''n8n@2.0.3'') \<in>
        set (snd (fetchNodeCatalogFromGitHub demo_runtime fetch_without_langchain ''now'' ''n8n@2.0.3''))"
    using T [THEN conjunct2, THEN conjunct2, THEN conjunct1] h by blast
  then show ?thesis by (simp add: declared_nodes_def)
qed

text \<open>
  The version file of the tag is retrieved and the manifest of the base package is not:
  the call fails.
\<close>

theorem release_manifest_outcome_counterexample:
  "retrieved fetch_without_base (raw_url ''n8n@2.0.3'' ''/packages/cli/package.json'') =
     Some \<lparr> pm_version = Some ''2.0.3'', pm_nodes = None \<rparr> \<and>
   fst (fetchNodeCatalogFromGitHub demo_runtime fetch_without_base ''now'' ''n8n@2.0.3'') =
     Inl (FetchFailed ''Failed to fetch nodes-base package: Not Found'')"
proof -
  have one: "retrieved fetch_without_base (raw_url ''n8n@2.0.3'' ''/packages/cli/package.json'') =
     Some \<lparr> pm_version = Some ''2.0.3'', pm_nodes = None \<rparr>"
    by (simp add: fetch_simps)
  have r: "fetch_without_base (raw_url ''n8n@2.0.3'' ''/packages/cli/package.json'') =
             Some (found \<lparr> pm_version = Some ''2.0.3'', pm_nodes = None \<rparr>)"
          "ok (found \<lparr> pm_version = Some ''2.0.3'', pm_nodes = None \<rparr>)"
          "json (found \<lparr> pm_version = Some ''2.0.3'', pm_nodes = None \<rparr>) =
             Some \<lparr> pm_version = Some ''2.0.3'', pm_nodes = None \<rparr>"
    by (simp_all add: fetch_simps)
  have r2: "fetch_without_base (raw_url ''n8n@2.0.3'' ''/packages/nodes-base/package.json'') = Some not_found"
           "\<not> ok not_found"
    by (simp_all add: fetch_simps)
  have two: "fst (fetchNodeCatalogFromGitHub demo_runtime fetch_without_base ''now'' ''n8n@2.0.3'') =
     Inl (FetchFailed ''Failed to fetch nodes-base package: Not Found'')"
    unfolding fetch_fst
    using body_base_not_ok [of fetch_without_base "''n8n@2.0.3''", OF r r2, of demo_runtime "''now''"]
    by (simp add: not_found_def)
  from one two show ?thesis by (intro conjI)
qed

end
